theory Spec2Isabelle
  imports Complex_Main "HOL-Library.Monad_Syntax"
begin

section \<open>The voice-client adapter\<close>

text \<open>
  \<^verbatim>\<open>LavalinkVoiceClient.on_voice_server_update\<close> and
  \<^verbatim>\<open>on_voice_state_update\<close> build a two-entry dictionary and hand it to the audio
  client's \<^verbatim>\<open>voice_update_handler\<close>. The values of the dictionary are a string
  (under \<^verbatim>\<open>'t'\<close>) and the gateway payload (under \<^verbatim>\<open>'d'\<close>), whose shape
  the adapter never inspects: it is a type parameter.
\<close>

datatype 'd lavalink_value = Str string | Payload 'd

type_synonym 'd lavalink_data = "string \<rightharpoonup> 'd lavalink_value"

text \<open>
  The audio client is external to the repository. Its handler is a parameter of the
  model: a function from the dictionary it is given and the client's state to the
  client's next state.
\<close>

definition on_voice_server_update ::
  "('d lavalink_data \<Rightarrow> 'c \<Rightarrow> 'c) \<Rightarrow> 'd \<Rightarrow> 'c \<Rightarrow> 'c" where
  "on_voice_server_update voice_update_handler data lavalink =
     (let lavalink_data = [''t'' \<mapsto> Str ''VOICE_SERVER_UPDATE'', ''d'' \<mapsto> Payload data]
      in voice_update_handler lavalink_data lavalink)"

definition on_voice_state_update ::
  "('d lavalink_data \<Rightarrow> 'c \<Rightarrow> 'c) \<Rightarrow> 'd \<Rightarrow> 'c \<Rightarrow> 'c" where
  "on_voice_state_update voice_update_handler data lavalink =
     (let lavalink_data = [''t'' \<mapsto> Str ''VOICE_STATE_UPDATE'', ''d'' \<mapsto> Payload data]
      in voice_update_handler lavalink_data lavalink)"

text \<open>
  A handler that only records what it is given, in order: the list of dictionaries the
  audio client has received.
\<close>

definition record_update :: "'d lavalink_data \<Rightarrow> 'd lavalink_data list \<Rightarrow> 'd lavalink_data list" where
  "record_update d received = received @ [d]"

section \<open>Strings\<close>

text \<open>
  A Python \<^verbatim>\<open>str\<close> is a sequence of code points; it is modelled by its UTF-8 encoding,
  a list of bytes, as are the literals of the source that hold characters outside ASCII.
  \<^verbatim>\<open>str.split()\<close> splits at runs of the code points that \<^verbatim>\<open>str.isspace\<close>
  accepts: U+0009 to U+000D, U+001C to U+0020, U+0085, U+00A0, U+1680, U+2000 to U+200A,
  U+2028, U+2029, U+202F, U+205F and U+3000. \<open>whitespace\<close> lists their encodings. In
  UTF-8 the first byte of an encoding never occurs inside another one, so one of these
  byte sequences found in an encoded string is that code point.
\<close>

definition whitespace :: "string list" where
  "whitespace =
     [[CHR 0x09], [CHR 0x0A], [CHR 0x0B], [CHR 0x0C], [CHR 0x0D],
      [CHR 0x1C], [CHR 0x1D], [CHR 0x1E], [CHR 0x1F], [CHR 0x20],
      [CHR 0xC2, CHR 0x85], [CHR 0xC2, CHR 0xA0],
      [CHR 0xE1, CHR 0x9A, CHR 0x80],
      [CHR 0xE2, CHR 0x80, CHR 0x80], [CHR 0xE2, CHR 0x80, CHR 0x81], [CHR 0xE2, CHR 0x80, CHR 0x82],
      [CHR 0xE2, CHR 0x80, CHR 0x83], [CHR 0xE2, CHR 0x80, CHR 0x84], [CHR 0xE2, CHR 0x80, CHR 0x85],
      [CHR 0xE2, CHR 0x80, CHR 0x86], [CHR 0xE2, CHR 0x80, CHR 0x87], [CHR 0xE2, CHR 0x80, CHR 0x88],
      [CHR 0xE2, CHR 0x80, CHR 0x89], [CHR 0xE2, CHR 0x80, CHR 0x8A],
      [CHR 0xE2, CHR 0x80, CHR 0xA8], [CHR 0xE2, CHR 0x80, CHR 0xA9], [CHR 0xE2, CHR 0x80, CHR 0xAF],
      [CHR 0xE2, CHR 0x81, CHR 0x9F],
      [CHR 0xE3, CHR 0x80, CHR 0x80]]"

definition space_prefix :: "string \<Rightarrow> nat" where
  "space_prefix s =
     (case find (\<lambda>ws. take (length ws) s = ws) whitespace of
        Some ws \<Rightarrow> length ws
      | None \<Rightarrow> 0)"

fun word_head :: "string \<Rightarrow> string" where
  "word_head [] = []"
| "word_head (c # cs) = (if 0 < space_prefix (c # cs) then [] else c # word_head cs)"

fun word_tail :: "string \<Rightarrow> string" where
  "word_tail [] = []"
| "word_tail (c # cs) = (if 0 < space_prefix (c # cs) then c # cs else word_tail cs)"

text \<open>
  \<open>py_split\<close> skips a blank at the head of the string; otherwise the string starts a word,
  which runs up to the next position where a blank starts (\<open>word_head\<close>), and the split
  goes on from there (\<open>word_tail\<close>).
\<close>

function py_split :: "string \<Rightarrow> string list" where
  "py_split [] = []"
| "py_split (c # cs) =
     (if 0 < space_prefix (c # cs) then py_split (drop (space_prefix (c # cs)) (c # cs))
      else (c # word_head cs) # py_split (word_tail cs))"
  by pat_completeness auto
termination
proof (relation "measure length")
  show "wf (measure length)" by simp
next
  fix c :: char and cs :: string
  assume "0 < space_prefix (c # cs)"
  then show "(drop (space_prefix (c # cs)) (c # cs), c # cs) \<in> measure length"
    by simp
next
  fix c :: char and cs :: string
  have "length (word_tail s) \<le> length s" for s
    by (induction s) auto
  then show "(word_tail cs, c # cs) \<in> measure length"
    by (simp add: le_imp_less_Suc)
qed

fun py_join :: "string \<Rightarrow> string list \<Rightarrow> string" where
  "py_join sep [] = []"
| "py_join sep [w] = w"
| "py_join sep (w # v # ws) = w @ sep @ py_join sep (v # ws)"

definition py_index :: "'a list \<Rightarrow> nat \<Rightarrow> 'a option" where
  "py_index xs i = (if i < length xs then Some (xs ! i) else None)"

definition stopwords :: "string list" where
  "stopwords = [''(Lyrics)'', ''Official'', ''Video'', ''(Official Video)'', ''lyrics'',
                '' (Audio)'', ''(Official Music Video)'']"

definition clean_title :: "string \<Rightarrow> string" where
  "clean_title new =
     (let lyricwords = py_split new;
          resultwords = filter (\<lambda>word. word \<notin> set stopwords) lyricwords;
          titles = py_join '' '' resultwords
      in titles)"

definition try6 :: "string \<Rightarrow> string option" where
  "try6 titles = do {
     search0 \<leftarrow> py_index (py_split titles) 0;
     search1 \<leftarrow> py_index (py_split titles) 1;
     search2 \<leftarrow> py_index (py_split titles) 2;
     search3 \<leftarrow> py_index (py_split titles) 3;
     search4 \<leftarrow> py_index (py_split titles) 4;
     search5 \<leftarrow> py_index (py_split titles) 5;
     Some (search0 @ ''  '' @ search1 @ ''  '' @ search2 @ ''  '' @ search3 @ ''  ''
           @ search4 @ ''  '' @ search5) }"

definition try5 :: "string \<Rightarrow> string option" where
  "try5 titles = do {
     search0 \<leftarrow> py_index (py_split titles) 0;
     search1 \<leftarrow> py_index (py_split titles) 1;
     search2 \<leftarrow> py_index (py_split titles) 2;
     search3 \<leftarrow> py_index (py_split titles) 3;
     search4 \<leftarrow> py_index (py_split titles) 4;
     Some (search0 @ ''  '' @ search1 @ ''  '' @ search2 @ ''  '' @ search3 @ ''  '' @ search4) }"

definition try4 :: "string \<Rightarrow> string option" where
  "try4 titles = do {
     search0 \<leftarrow> py_index (py_split titles) 0;
     search1 \<leftarrow> py_index (py_split titles) 1;
     search2 \<leftarrow> py_index (py_split titles) 2;
     search3 \<leftarrow> py_index (py_split titles) 3;
     Some (search0 @ ''  '' @ search1 @ ''  '' @ search2 @ ''  '' @ search3) }"

definition try3 :: "string \<Rightarrow> string option" where
  "try3 titles = do {
     search0 \<leftarrow> py_index (py_split titles) 0;
     search1 \<leftarrow> py_index (py_split titles) 1;
     search2 \<leftarrow> py_index (py_split titles) 2;
     Some (search0 @ ''  '' @ search1 @ ''  '' @ search2) }"

definition try2 :: "string \<Rightarrow> string option" where
  "try2 titles = do {
     search0 \<leftarrow> py_index (py_split titles) 0;
     search1 \<leftarrow> py_index (py_split titles) 1;
     Some (search0 @ ''  '' @ search1) }"

datatype fallback = Composed string | Not_Found

definition fallback_chain :: "string \<Rightarrow> fallback" where
  "fallback_chain titles =
     (case try6 titles of Some search \<Rightarrow> Composed search
      | None \<Rightarrow> (case try5 titles of Some search \<Rightarrow> Composed search
      | None \<Rightarrow> (case try4 titles of Some search \<Rightarrow> Composed search
      | None \<Rightarrow> (case try3 titles of Some search \<Rightarrow> Composed search
      | None \<Rightarrow> (case try2 titles of Some search \<Rightarrow> Composed search
      | None \<Rightarrow> Not_Found)))))"

text \<open>
  A word, as \<open>py_split\<close> produces them: not empty, with no blank starting anywhere in
  it, also when a space follows it.
\<close>

definition word :: "string \<Rightarrow> bool" where
  "word w = (w \<noteq> []
             \<and> (\<forall>i < length w. space_prefix (drop i w) = 0)
             \<and> (\<forall>i < length w. \<forall>s. space_prefix (drop i w @ CHR 0x20 # s) = 0))"

subsection \<open>Numbers in text, slices\<close>

text \<open>\<^verbatim>\<open>str\<close> of an integer: its decimal digits, with a minus sign when negative.\<close>

function digits :: "nat \<Rightarrow> string" where
  "digits n = (if n < 10 then [''0123456789'' ! n]
               else digits (n div 10) @ [''0123456789'' ! (n mod 10)])"
  by pat_completeness auto
termination
  by (relation "measure id") auto

declare digits.simps [simp del]

definition str_int :: "int \<Rightarrow> string" where
  "str_int i = (if i < 0 then CHR ''-'' # digits (nat (- i)) else digits (nat i))"

text \<open>
  \<^verbatim>\<open>xs[start:end]\<close>: a negative bound counts from the end, and both bounds are
  clamped to the list.
\<close>

definition slice_bound :: "nat \<Rightarrow> int \<Rightarrow> nat" where
  "slice_bound n i = (if i < 0 then nat (max (i + int n) 0) else min (nat i) n)"

definition py_slice :: "'a list \<Rightarrow> int \<Rightarrow> int \<Rightarrow> 'a list" where
  "py_slice xs start stop =
     (let s = slice_bound (length xs) start; e = slice_bound (length xs) stop
      in take (e - s) (drop s xs))"

text \<open>
  \<^verbatim>\<open>math.ceil(n / d)\<close> for a list length \<open>n\<close> and a positive \<open>d\<close>, in integer
  arithmetic.
\<close>

definition ceil_div :: "nat \<Rightarrow> nat \<Rightarrow> int" where
  "ceil_div n d = - ((- int n) div int d)"

section \<open>The cog\<close>

datatype py_error =
  AttributeError | NameError | IndexError | UnboundLocalError | ValueError | TypeError
  | CommandInvokeError string

record track_dict =
  info_title :: string
  info_uri :: string
  info_author :: string
  info_length :: int
  info_isStream :: bool

record audio_track =
  title :: string
  uri :: string
  author :: string
  duration :: int
  stream :: bool
  requester :: int
  recommended :: bool

datatype track_arg = Dict track_dict | Track audio_track

definition AudioTrack :: "track_dict \<Rightarrow> int \<Rightarrow> bool \<Rightarrow> audio_track" where
  "AudioTrack data req rec =
     \<lparr> title = info_title data, uri = info_uri data, author = info_author data,
       duration = info_length data, stream = info_isStream data,
       requester = req, recommended = rec \<rparr>"

record 'p player_api =
  player_create :: "int \<Rightarrow> string option \<Rightarrow> 'p"
  player_add :: "int \<Rightarrow> track_arg \<Rightarrow> 'p \<Rightarrow> 'p"
  player_play :: "'p \<Rightarrow> 'p"
  player_set_pause :: "bool \<Rightarrow> 'p \<Rightarrow> 'p"
  player_set_volume :: "int \<Rightarrow> 'p \<Rightarrow> 'p"
  player_set_repeat :: "bool \<Rightarrow> 'p \<Rightarrow> 'p"
  player_skip :: "'p \<Rightarrow> 'p"
  player_stop :: "'p \<Rightarrow> 'p"
  player_store :: "string \<Rightarrow> int \<Rightarrow> 'p \<Rightarrow> 'p"
  player_is_playing :: "'p \<Rightarrow> bool"
  player_is_connected :: "'p \<Rightarrow> bool"
  player_current :: "'p \<Rightarrow> audio_track option"
  player_queue :: "'p \<Rightarrow> audio_track list"
  player_set_queue :: "audio_track list \<Rightarrow> 'p \<Rightarrow> 'p"
  player_volume :: "'p \<Rightarrow> int"
  player_repeat :: "'p \<Rightarrow> bool"
  player_shuffle :: "'p \<Rightarrow> bool"
  player_set_shuffle :: "bool \<Rightarrow> 'p \<Rightarrow> 'p"
  player_position :: "'p \<Rightarrow> int"
  player_channel_id :: "'p \<Rightarrow> int option"
  player_set_channel_id :: "int option \<Rightarrow> 'p \<Rightarrow> 'p"

record embed =
  embed_title :: "string option"
  embed_description :: "string option"
  embed_fields :: "(string \<times> string) list"
  embed_footer :: "string option"

datatype out_event =
  Send string | Send_Embed embed | Add_Reaction string
  | Get_Tracks string | Genius_Search string
  | Change_Voice_State int "int option" | Cleanup | Send_Error py_error

record 'p world =
  players :: "int \<rightharpoonup> 'p"
  spotify :: "bool option"
  lyricstitle :: "string option"
  spotifylyrics :: "string option"
  outbox :: "out_event list"


record voice_channel =
  vc_id :: int
  vc_guild_id :: int
  perm_connect :: bool
  perm_speak :: bool

record ctx =
  guild_id :: int
  guild_region :: string
  author_id :: int
  author_voice :: "voice_channel option option"
  channel_id :: int
  command_name :: string
  voice_client_channel :: "voice_channel option"

type_synonym 'p outcome = "py_error option \<times> 'p world"

definition send :: "string \<Rightarrow> 'p world \<Rightarrow> 'p world" where
  "send content w = w\<lparr>outbox := outbox w @ [Send content]\<rparr>"

definition send_embed :: "embed \<Rightarrow> 'p world \<Rightarrow> 'p world" where
  "send_embed e w = w\<lparr>outbox := outbox w @ [Send_Embed e]\<rparr>"

definition add_reaction :: "string \<Rightarrow> 'p world \<Rightarrow> 'p world" where
  "add_reaction emoji w = w\<lparr>outbox := outbox w @ [Add_Reaction emoji]\<rparr>"

definition set_player :: "int \<Rightarrow> 'p \<Rightarrow> 'p world \<Rightarrow> 'p world" where
  "set_player g player w = w\<lparr>players := (players w)(g \<mapsto> player)\<rparr>"

definition glyph_pause :: string where
  "glyph_pause = [CHR 0xE2, CHR 0x80, CHR 0x9A, CHR 0xC3, CHR 0xA8, CHR 0xE2, CHR 0x88, CHR 0x8F]"

definition glyph_resume :: string where
  "glyph_resume = [CHR 0xE2, CHR 0x80, CHR 0x9A, CHR 0xC3, CHR 0xA8, CHR 0xC3, CHR 0x98]"

definition pause :: "'p player_api \<Rightarrow> ctx \<Rightarrow> 'p world \<Rightarrow> 'p outcome" where
  "pause api ctx w =
     (case players w (guild_id ctx) of
        None \<Rightarrow> (Some AttributeError, w)
      | Some player \<Rightarrow>
          (None, add_reaction glyph_pause
                   (set_player (guild_id ctx) (player_set_pause api True player) w)))"

definition resume :: "'p player_api \<Rightarrow> ctx \<Rightarrow> 'p world \<Rightarrow> 'p outcome" where
  "resume api ctx w =
     (case players w (guild_id ctx) of
        None \<Rightarrow> (Some AttributeError, w)
      | Some player \<Rightarrow>
          (None, add_reaction glyph_resume
                   (set_player (guild_id ctx) (player_set_pause api False player) w)))"


record default_player =
  dp_guild_id :: int
  dp_queue :: "audio_track list"
  dp_current :: "audio_track option"
  dp_volume :: int
  dp_repeat :: bool
  dp_shuffle :: bool
  dp_paused :: bool
  dp_channel_id :: "int option"
  dp_position :: int
  dp_stored :: "(string \<times> int) list"

definition dp_play :: "(nat \<Rightarrow> nat) \<Rightarrow> default_player \<Rightarrow> default_player" where
  "dp_play randrange p =
     (let q = (case dp_current p of
                 Some c \<Rightarrow> if dp_repeat p then dp_queue p @ [c] else dp_queue p
               | None \<Rightarrow> dp_queue p)
      in if q = [] then p\<lparr>dp_queue := q, dp_current := None, dp_paused := False, dp_position := 0\<rparr>
         else let pop_at = (if dp_shuffle p then randrange (length q) mod length q else 0)
              in p\<lparr>dp_queue := take pop_at q @ drop (Suc pop_at) q,
                    dp_current := Some (q ! pop_at), dp_paused := False, dp_position := 0\<rparr>)"

definition default_api :: "(nat \<Rightarrow> nat) \<Rightarrow> default_player player_api" where
  "default_api randrange =
     \<lparr> player_create = (\<lambda>g endpoint.
         \<lparr> dp_guild_id = g, dp_queue = [], dp_current = None, dp_volume = 100,
           dp_repeat = False, dp_shuffle = False, dp_paused = False, dp_channel_id = None,
           dp_position = 0, dp_stored = [] \<rparr>),
       player_add = (\<lambda>req t p.
         p\<lparr>dp_queue := dp_queue p @ [case t of Dict d \<Rightarrow> AudioTrack d req False | Track a \<Rightarrow> a]\<rparr>),
       player_play = dp_play randrange,
       player_set_pause = (\<lambda>b p. p\<lparr>dp_paused := b\<rparr>),
       player_set_volume = (\<lambda>v p. p\<lparr>dp_volume := max (min v 1000) 0\<rparr>),
       player_set_repeat = (\<lambda>b p. p\<lparr>dp_repeat := b\<rparr>),
       player_skip = dp_play randrange,
       player_stop = (\<lambda>p. p\<lparr>dp_current := None\<rparr>),
       player_store = (\<lambda>k v p. p\<lparr>dp_stored := (k, v) # dp_stored p\<rparr>),
       player_is_playing = (\<lambda>p. dp_channel_id p \<noteq> None \<and> dp_current p \<noteq> None),
       player_is_connected = (\<lambda>p. dp_channel_id p \<noteq> None),
       player_current = dp_current,
       player_queue = dp_queue,
       player_set_queue = (\<lambda>q p. p\<lparr>dp_queue := q\<rparr>),
       player_volume = dp_volume,
       player_repeat = dp_repeat,
       player_shuffle = dp_shuffle,
       player_set_shuffle = (\<lambda>b p. p\<lparr>dp_shuffle := b\<rparr>),
       player_position = dp_position,
       player_channel_id = dp_channel_id,
       player_set_channel_id = (\<lambda>c p. p\<lparr>dp_channel_id := c\<rparr>) \<rparr>"

subsection \<open>The lyrics commands\<close>

text \<open>
  The lyrics-search client and the audio node are network services. What they answer is a
  parameter of the model; that they were asked, and what, is recorded in the outbox.
  \<open>search_song\<close> answers \<open>None\<close> when it has no hit, and the handlers then fail
  on the attribute \<open>lyrics\<close> of \<open>None\<close>. The Spotify client's \<open>sp_track\<close> and
  \<open>sp_playlist_items\<close> answer \<open>None\<close> when the call raises; a playlist is given by
  the track ids of its items. \<open>format_time\<close> is the audio client's formatter.
\<close>

record genius_song =
  song_str :: string
  lyrics_text :: string

record track_results =
  loadType :: string
  tracks :: "track_dict list"
  playlistInfo_name :: string

record sp_track_info =
  sp_name :: string
  sp_artists :: "string list"

record services =
  get_tracks :: "string \<Rightarrow> track_results option"
  search_song :: "string \<Rightarrow> genius_song option"
  format_time :: "int \<Rightarrow> string"
  sp_track :: "string \<Rightarrow> sp_track_info option"
  sp_playlist_items :: "string \<Rightarrow> string list option"

definition genius_search :: "services \<Rightarrow> string \<Rightarrow> 'p world \<Rightarrow> genius_song option \<times> 'p world" where
  "genius_search sv q w = (search_song sv q, w\<lparr>outbox := outbox w @ [Genius_Search q]\<rparr>)"

definition lyric_embed :: "string \<Rightarrow> string \<Rightarrow> embed" where
  "lyric_embed t d =
     \<lparr> embed_title = Some t, embed_description = Some d, embed_fields = [], embed_footer = None \<rparr>"

text \<open>
  \<open>lyrics\<close> returns, beside the outcome, the value of its local variable \<open>search\<close>
  when the handler ends (\<open>None\<close> while unbound): the fallback chain assigns it and nothing
  reads it afterwards. The second \<^verbatim>\<open>except\<close> block of the title cleaning runs only
  when \<^verbatim>\<open>player.current.title\<close> has raised, and raises there again.
\<close>

definition lyrics ::
  "services \<Rightarrow> 'p player_api \<Rightarrow> ctx \<Rightarrow> string option \<Rightarrow> 'p world \<Rightarrow> string option \<times> 'p outcome" where
  "lyrics sv api ctx song w =
     (case players w (guild_id ctx) of
        None \<Rightarrow> (None, Some AttributeError, w)
      | Some player \<Rightarrow>
     (case player_current api player of
        None \<Rightarrow> (None, Some AttributeError, w)
      | Some cur \<Rightarrow>
     (let titles = clean_title (title cur) in
      case song of
        None \<Rightarrow>
          (case spotify w of
             None \<Rightarrow> (None, Some NameError, w)
           | Some True \<Rightarrow>
               (case spotifylyrics w of
                  None \<Rightarrow> (None, Some NameError, w)
                | Some q \<Rightarrow>
                    (case genius_search sv q w of
                       (None, w') \<Rightarrow> (None, Some AttributeError, w')
                     | (Some lyric, w') \<Rightarrow>
                         (None, None, send_embed (lyric_embed (title cur) (lyrics_text lyric)) w')))
           | Some False \<Rightarrow>
               (case (case lyricstitle w of
                        None \<Rightarrow> (None, None, w)
                      | Some search \<Rightarrow>
                          (case genius_search sv search w of
                             (None, w') \<Rightarrow> (Some search, None, w')
                           | (Some lyric, w') \<Rightarrow> (Some search, Some lyric, w')))
                of
                  (search, Some lyric, w') \<Rightarrow>
                    (search, None, send_embed (lyric_embed (title cur) (lyrics_text lyric)) w')
                | (search, None, w') \<Rightarrow>
                    (case fallback_chain titles of
                       Composed search' \<Rightarrow> (Some search', None, w')
                     | Not_Found \<Rightarrow> (search, None, send ''Lyrics not Found'' w'))))
      | Some s \<Rightarrow>
          (case genius_search sv s w of
             (None, w') \<Rightarrow> (None, Some AttributeError, w')
           | (Some found, w') \<Rightarrow>
               (None, None, send_embed (lyric_embed (song_str found) (lyrics_text found)) w')))))"

datatype activity = Spotify string string | Other_Activity string

fun lyricsuser_loop :: "services \<Rightarrow> activity list \<Rightarrow> 'p world \<Rightarrow> 'p outcome" where
  "lyricsuser_loop sv [] w = (None, w)"
| "lyricsuser_loop sv (Spotify a_title a_artist # rest) w =
     (let song = a_title in
      case genius_search sv song w of
        (None, w') \<Rightarrow> (Some AttributeError, w')
      | (Some lyricsz, w') \<Rightarrow>
          lyricsuser_loop sv rest (send_embed (lyric_embed song (lyrics_text lyricsz)) w'))"
| "lyricsuser_loop sv (Other_Activity n # rest) w = lyricsuser_loop sv rest w"

definition lyricsuser :: "services \<Rightarrow> ctx \<Rightarrow> activity list \<Rightarrow> 'p world \<Rightarrow> 'p outcome" where
  "lyricsuser sv ctx activities w =
     (if activities \<noteq> [] then lyricsuser_loop sv activities w else (None, w))"

subsection \<open>The current and queue commands\<close>

definition glyph_speaker :: string where
  "glyph_speaker = [CHR 0xEF, CHR 0xA3, CHR 0xBF, CHR 0xC3, CHR 0xBC, CHR 0xC3, CHR 0xAE, CHR 0xC3, CHR 0xA0]"

definition glyph_live :: string where
  "glyph_live = [CHR 0xEF, CHR 0xA3, CHR 0xBF, CHR 0xC3, CHR 0xBC, CHR 0xC3, CHR 0xAE, CHR 0xC2, CHR 0xA5,
                 CHR 0xC3, CHR 0x94, CHR 0xE2, CHR 0x88, CHR 0x8F, CHR 0xC2, CHR 0xB1] @ ''Live''"

definition zero_width_space :: string where
  "zero_width_space = [CHR 0xE2, CHR 0x80, CHR 0x8B]"

text \<open>
  The locals \<open>pos\<close> and \<open>dur\<close> are bound only under the guard on
  \<^verbatim>\<open>player.current\<close>; the embed is built after the guard, outside it.
\<close>

definition current :: "services \<Rightarrow> 'p player_api \<Rightarrow> ctx \<Rightarrow> 'p world \<Rightarrow> 'p outcome" where
  "current sv api ctx w =
     (case players w (guild_id ctx) of
        None \<Rightarrow> (Some AttributeError, w)
      | Some player \<Rightarrow>
     (let pos_dur =
            (case player_current api player of
               Some c \<Rightarrow>
                 Some (format_time sv (player_position api player),
                       if stream c then ''LIVE'' else format_time sv (duration c))
             | None \<Rightarrow> None)
      in case player_current api player of
           None \<Rightarrow> (Some AttributeError, w)
         | Some c \<Rightarrow>
             (let fields0 =
                    [(''Uploader'', author c),
                     (''Track Url'', ''[Click]('' @ uri c @ '')''),
                     (''Requester'', ''<@'' @ str_int (requester c) @ ''>'')];
                  vol = (glyph_speaker @ '' | Volume'', str_int (player_volume api player) @ ''%'')
              in case pos_dur of
                   None \<Rightarrow> (Some UnboundLocalError, w)
                 | Some (pos, dur) \<Rightarrow>
                     (None, send_embed
                        \<lparr> embed_title = Some ''**Now Playing**'',
                          embed_description = Some (title c),
                          embed_fields =
                            (if stream c
                             then fields0 @ [vol, (''Duration'', glyph_live), (''Playtime'', pos)]
                             else fields0 @ [vol, (zero_width_space, zero_width_space),
                                             (''Duration'', pos @ ''/'' @ dur)]),
                          embed_footer = None \<rparr> w))))"

text \<open>
  The first loop of \<open>queue\<close> leaves in \<open>queuetime\<close> the formatted duration of the last
  track it visits, and leaves it unbound when the slice is empty; the second loop writes
  one line per track of the slice, numbered from \<open>start + 1\<close>.
\<close>

definition queue_line :: "int \<Rightarrow> audio_track \<Rightarrow> string" where
  "queue_line i track =
     ''`'' @ str_int (i + 1) @ ''.` [**'' @ title track @ ''**]('' @ uri track @ '')'' @ [CHR 0x0A]"

fun queue_lines :: "int \<Rightarrow> audio_track list \<Rightarrow> string" where
  "queue_lines i [] = []"
| "queue_lines i (track # rest) = queue_line i track @ queue_lines (i + 1) rest"

definition queue :: "services \<Rightarrow> 'p player_api \<Rightarrow> ctx \<Rightarrow> int \<Rightarrow> 'p world \<Rightarrow> 'p outcome" where
  "queue sv api ctx page w =
     (case players w (guild_id ctx) of
        None \<Rightarrow> (Some AttributeError, w)
      | Some player \<Rightarrow>
     (if player_queue api player = []
      then (None, send (''There'' @ [CHR 0x27] @ ''s nothing in the queue! Why not queue something?'') w)
      else
       (let items_per_page = 10;
            pages = ceil_div (length (player_queue api player)) items_per_page;
            start = (page - 1) * int items_per_page;
            stop = start + int items_per_page;
            shown = py_slice (player_queue api player) start stop;
            queuetime = foldl (\<lambda>_ track. Some (format_time sv (duration track))) None shown;
            queue_list = queue_lines start shown
        in case queuetime of
             None \<Rightarrow> (Some UnboundLocalError, w)
           | Some qt \<Rightarrow>
               (None, send_embed
                  \<lparr> embed_title = None,
                    embed_description =
                      Some (''**'' @ str_int (int (length (player_queue api player))) @ '' tracks**''
                            @ [CHR 0x0A] @ ''total queue time = '' @ qt @ [CHR 0x0A, CHR 0x0A]
                            @ queue_list),
                    embed_fields = [],
                    embed_footer =
                      Some (''Viewing page '' @ str_int page @ ''/'' @ str_int pages) \<rparr> w))))"

subsection \<open>The play commands\<close>

text \<open>
  \<^verbatim>\<open>url_rx = re.compile(r'https?://(?:www\.)?.+')\<close>, matched at the start of the
  string: the scheme, an optional \<^verbatim>\<open>www.\<close>, then at least one character that is
  not a newline.
\<close>

definition dot_plus :: "string \<Rightarrow> bool" where
  "dot_plus s = (case s of [] \<Rightarrow> False | c # _ \<Rightarrow> c \<noteq> CHR 0x0A)"

definition optional_www :: "string \<Rightarrow> bool" where
  "optional_www s = ((take 4 s = ''www.'' \<and> dot_plus (drop 4 s)) \<or> dot_plus s)"

definition url_rx_match :: "string \<Rightarrow> bool" where
  "url_rx_match s =
     (if take 8 s = ''https://'' then optional_www (drop 8 s)
      else if take 7 s = ''http://'' then optional_www (drop 7 s)
      else False)"

text \<open>\<^verbatim>\<open>s.strip(chars)\<close>: the characters of \<open>chars\<close> are removed from both ends.\<close>

definition py_strip :: "string \<Rightarrow> string \<Rightarrow> string" where
  "py_strip chars s =
     rev (dropWhile (\<lambda>c. c \<in> set chars) (rev (dropWhile (\<lambda>c. c \<in> set chars) s)))"

text \<open>\<^verbatim>\<open>xs[i]\<close> for an integer index: negative indices count from the end.\<close>

definition py_index_int :: "'a list \<Rightarrow> int \<Rightarrow> 'a option" where
  "py_index_int xs i =
     (let j = (if i < 0 then i + int (length xs) else i)
      in if 0 \<le> j \<and> j < int (length xs) then Some (xs ! nat j) else None)"

definition spotify_query :: "sp_track_info \<Rightarrow> string option" where
  "spotify_query track =
     (case sp_artists track of
        [] \<Rightarrow> None
      | artist # _ \<Rightarrow> Some (''ytsearch:'' @ sp_name track @ '' '' @ artist))"

text \<open>
  The loop over a Spotify playlist: \<open>playlist_size\<close> counts down from 50, each round
  reads the item at \<open>playlist_size - 1\<close> after the decrement and overwrites \<open>query\<close>.
  \<open>Inl\<close> is an exception, with the query as it stood when it was raised.
\<close>

fun playlist_loop :: "services \<Rightarrow> string list \<Rightarrow> nat \<Rightarrow> string \<Rightarrow> string + string" where
  "playlist_loop sv items 0 query = Inr query"
| "playlist_loop sv items (Suc playlist_size) query =
     (case py_index_int items (int playlist_size - 1) of
        None \<Rightarrow> Inl query
      | Some songs \<Rightarrow>
          (case sp_track sv songs of
             None \<Rightarrow> Inl query
           | Some track \<Rightarrow>
               (case spotify_query track of
                  None \<Rightarrow> Inl query
                | Some query' \<Rightarrow> playlist_loop sv items playlist_size query')))"

definition search_prefix :: "string \<Rightarrow> string" where
  "search_prefix query = (if \<not> url_rx_match query then ''ytsearch:'' @ query else query)"

definition resolve_query :: "services \<Rightarrow> string \<Rightarrow> string" where
  "resolve_query sv query0 =
     (let query = py_strip ''<>'' query0 in
      case Option.bind (sp_track sv query) spotify_query of
        Some query' \<Rightarrow> query'
      | None \<Rightarrow>
          (case sp_playlist_items sv query of
             None \<Rightarrow> search_prefix query
           | Some items \<Rightarrow>
               (case playlist_loop sv items 50 query of
                  Inr query' \<Rightarrow> query'
                | Inl query' \<Rightarrow> search_prefix query')))"

text \<open>
  The lines that both \<open>play\<close> and \<open>playuser\<close> run on a lookup that found something;
  \<open>track\<close> is \<^verbatim>\<open>results['tracks'][0]\<close>. They give the player after the calls of
  \<open>add\<close> and the embed to send.
\<close>

definition enqueue ::
  "'p player_api \<Rightarrow> ctx \<Rightarrow> track_results \<Rightarrow> track_dict \<Rightarrow> 'p \<Rightarrow> 'p \<times> embed" where
  "enqueue api ctx results track player =
     (if loadType results = ''PLAYLIST_LOADED''
      then (foldl (\<lambda>p track. player_add api (author_id ctx) (Dict track) p) player (tracks results),
            \<lparr> embed_title = Some ''Playlist Enqueued!'',
              embed_description =
                Some (playlistInfo_name results @ '' - '' @ str_int (int (length (tracks results)))
                      @ '' tracks''),
              embed_fields = [], embed_footer = None \<rparr>)
      else (player_add api (author_id ctx) (Track (AudioTrack track (author_id ctx) True)) player,
            \<lparr> embed_title = Some ''Track Enqueued'',
              embed_description = Some (''['' @ info_title track @ '']('' @ info_uri track @ '')''),
              embed_fields = [], embed_footer = None \<rparr>))"

definition play_if_idle :: "'p player_api \<Rightarrow> 'p \<Rightarrow> 'p" where
  "play_if_idle api player = (if \<not> player_is_playing api player then player_play api player else player)"

definition play :: "services \<Rightarrow> 'p player_api \<Rightarrow> ctx \<Rightarrow> string \<Rightarrow> 'p world \<Rightarrow> 'p outcome" where
  "play sv api ctx query0 w0 =
     (let w = w0\<lparr>spotify := Some False\<rparr>;
          query = resolve_query sv query0
      in case players w (guild_id ctx) of
           None \<Rightarrow> (Some AttributeError, w)
         | Some player \<Rightarrow>
             (let w1 = w\<lparr>outbox := outbox w @ [Get_Tracks query]\<rparr> in
              case get_tracks sv query of
                None \<Rightarrow> (None, send ''Nothing found!'' w1)
              | Some results \<Rightarrow>
                  (case tracks results of
                     [] \<Rightarrow> (None, send ''Nothing found!'' w1)
                   | track # _ \<Rightarrow>
                       (let (player', embed) = enqueue api ctx results track player;
                            w2 = send_embed embed (set_player (guild_id ctx) player' w1);
                            w3 = w2\<lparr>lyricstitle := Some (py_strip ''ytsearch:'' query)\<rparr>
                        in (None, set_player (guild_id ctx) (play_if_idle api player') w3)))))"

definition playuser_query :: "string \<Rightarrow> string \<Rightarrow> string" where
  "playuser_query a_title a_artist = search_prefix (a_title @ '' '' @ a_artist)"

definition make_sure :: string where
  "make_sure = ''Make sure this user has connected discord with spotify and displays their song as a status.''"

fun playuser_loop :: "services \<Rightarrow> 'p player_api \<Rightarrow> ctx \<Rightarrow> activity list \<Rightarrow> 'p world \<Rightarrow> 'p outcome" where
  "playuser_loop sv api ctx [] w = (None, w)"
| "playuser_loop sv api ctx (Other_Activity n # rest) w =
     playuser_loop sv api ctx rest (send make_sure w)"
| "playuser_loop sv api ctx (Spotify a_title a_artist # rest) w0 =
     (let query = playuser_query a_title a_artist;
          w = w0\<lparr>spotifylyrics := Some query\<rparr>
      in case players w (guild_id ctx) of
           None \<Rightarrow> (Some AttributeError, w)
         | Some player \<Rightarrow>
             (let w1 = w\<lparr>outbox := outbox w @ [Get_Tracks query]\<rparr> in
              case get_tracks sv query of
                None \<Rightarrow> (None, send ''Nothing found!'' w1)
              | Some results \<Rightarrow>
                  (case tracks results of
                     [] \<Rightarrow> (None, send ''Nothing found!'' w1)
                   | track # _ \<Rightarrow>
                       (let (player', embed) = enqueue api ctx results track player;
                            w2 = send_embed embed (set_player (guild_id ctx) player' w1)
                        in playuser_loop sv api ctx rest
                             (set_player (guild_id ctx) (play_if_idle api player') w2)))))"

definition playuser :: "services \<Rightarrow> 'p player_api \<Rightarrow> ctx \<Rightarrow> activity list \<Rightarrow> 'p world \<Rightarrow> 'p outcome" where
  "playuser sv api ctx activities w =
     playuser_loop sv api ctx activities (w\<lparr>spotify := Some True\<rparr>)"

subsection \<open>Reading the outbox\<close>

text \<open>
  The queries sent to the audio node and to the lyrics service, in the order they were
  sent, and the Spotify activities of a member as pairs of title and artist.
\<close>

fun lookups :: "out_event list \<Rightarrow> string list" where
  "lookups [] = []"
| "lookups (Get_Tracks q # evs) = q # lookups evs"
| "lookups (_ # evs) = lookups evs"

fun searches :: "out_event list \<Rightarrow> string list" where
  "searches [] = []"
| "searches (Genius_Search q # evs) = q # searches evs"
| "searches (_ # evs) = searches evs"

fun spotify_activities :: "activity list \<Rightarrow> (string \<times> string) list" where
  "spotify_activities [] = []"
| "spotify_activities (Spotify a_title a_artist # rest) = (a_title, a_artist) # spotify_activities rest"
| "spotify_activities (Other_Activity n # rest) = spotify_activities rest"


subsection \<open>The remaining commands\<close>

definition glyph_loop :: string where
  "glyph_loop = [CHR 0xEF, CHR 0xA3, CHR 0xBF, CHR 0xC3, CHR 0xBC, CHR 0xC3, CHR 0xAE, CHR 0xC3, CHR 0x85]"

definition glyph_cross :: string where
  "glyph_cross = [CHR 0xE2, CHR 0x80, CHR 0x9A, CHR 0xC3, CHR 0xB9, CHR 0xC3, CHR 0xA5]"

definition glyph_skip :: string where
  "glyph_skip = [CHR 0xE2, CHR 0x80, CHR 0x9A, CHR 0xC3, CHR 0xA8, CHR 0xE2, CHR 0x89, CHR 0xA0]"

definition glyph_shuffle :: string where
  "glyph_shuffle = [CHR 0xEF, CHR 0xA3, CHR 0xBF, CHR 0xC3, CHR 0xBC, CHR 0xC3, CHR 0xAE, CHR 0xC3, CHR 0x84]"

definition glyph_disconnected :: string where
  "glyph_disconnected = [CHR 0xE2, CHR 0x80, CHR 0x9A, CHR 0xC3, CHR 0x89, CHR 0xC2, CHR 0xA3]"

definition join :: "ctx \<Rightarrow> 'p world \<Rightarrow> 'p outcome" where
  "join ctx w = (None, w)"

definition volume :: "'p player_api \<Rightarrow> ctx \<Rightarrow> int \<Rightarrow> 'p world \<Rightarrow> 'p outcome" where
  "volume api ctx vol w =
     (case players w (guild_id ctx) of
        None \<Rightarrow> (Some AttributeError, w)
      | Some player \<Rightarrow>
          (let player' = player_set_volume api vol player
           in (None, send (glyph_speaker @ '' | Set volume to '' @ str_int (player_volume api player') @ ''%'')
                       (set_player (guild_id ctx) player' w))))"

definition loop :: "'p player_api \<Rightarrow> ctx \<Rightarrow> 'p world \<Rightarrow> 'p outcome" where
  "loop api ctx w =
     (case players w (guild_id ctx) of
        None \<Rightarrow> (Some AttributeError, w)
      | Some player \<Rightarrow>
          (None, add_reaction glyph_loop
                   (set_player (guild_id ctx) (player_set_repeat api True player) w)))"

definition unloop :: "'p player_api \<Rightarrow> ctx \<Rightarrow> 'p world \<Rightarrow> 'p outcome" where
  "unloop api ctx w =
     (case players w (guild_id ctx) of
        None \<Rightarrow> (Some AttributeError, w)
      | Some player \<Rightarrow>
          (if player_repeat api player
           then (None, add_reaction glyph_loop
                         (set_player (guild_id ctx) (player_set_repeat api False player) w))
           else (None, add_reaction glyph_cross (send ''This track is not looped'' w))))"

definition skip :: "'p player_api \<Rightarrow> ctx \<Rightarrow> 'p world \<Rightarrow> 'p outcome" where
  "skip api ctx w =
     (case players w (guild_id ctx) of
        None \<Rightarrow> (Some AttributeError, w)
      | Some player \<Rightarrow>
          (None, add_reaction glyph_skip (set_player (guild_id ctx) (player_skip api player) w)))"

definition remove :: "'p player_api \<Rightarrow> ctx \<Rightarrow> int \<Rightarrow> 'p world \<Rightarrow> 'p outcome" where
  "remove api ctx index w =
     (case players w (guild_id ctx) of
        None \<Rightarrow> (Some AttributeError, w)
      | Some player \<Rightarrow>
          (let q = player_queue api player in
           if q = [] then (None, send ''Nothing queued.'' w)
           else if index > int (length q) \<or> index < 1
           then (None, send ''Index has to be >=1 and <=queue size'' w)
           else
            (let i = nat (index - 1);
                 removed = q ! i;
                 player' = player_set_queue api (take i q @ drop (Suc i) q) player
             in (None, send (''Removed **'' @ title removed @ ''** from the queue.'')
                         (set_player (guild_id ctx) player' w)))))"

definition shuffle :: "'p player_api \<Rightarrow> ctx \<Rightarrow> 'p world \<Rightarrow> 'p outcome" where
  "shuffle api ctx w =
     (case players w (guild_id ctx) of
        None \<Rightarrow> (Some AttributeError, w)
      | Some player \<Rightarrow>
          (if \<not> player_is_playing api player then (None, send ''Nothing playing.'' w)
           else
            (let player' = player_set_shuffle api (\<not> player_shuffle api player) player
             in (None, send (glyph_shuffle @ '' | Shuffle ''
                             @ (if player_shuffle api player' then ''enabled'' else ''disabled''))
                         (set_player (guild_id ctx) player' w)))))"

text \<open>
  \<open>search_music\<close> waits for a message of the invoking author; \<open>response\<close> is the
  integer its content reads as, \<open>None\<close> when \<^verbatim>\<open>int\<close> rejects it.
\<close>

fun search_lines :: "int \<Rightarrow> track_dict list \<Rightarrow> string" where
  "search_lines i [] = []"
| "search_lines i (track # rest) =
     (str_int (i + 1) @ '') '' @ info_title track @ '' - '' @ info_uri track @ [CHR 0x0A])
     @ search_lines (i + 1) rest"

definition search_music ::
  "services \<Rightarrow> 'p player_api \<Rightarrow> ctx \<Rightarrow> string \<Rightarrow> int option \<Rightarrow> 'p world \<Rightarrow> 'p outcome" where
  "search_music sv api ctx search response w =
     (case players w (guild_id ctx) of
        None \<Rightarrow> (Some AttributeError, w)
      | Some player \<Rightarrow>
          (let query = ''ytsearch:'' @ search;
               w1 = w\<lparr>outbox := outbox w @ [Get_Tracks query]\<rparr>
           in case get_tracks sv query of
                None \<Rightarrow> (Some TypeError, w1)
              | Some results \<Rightarrow>
                  (let found = py_slice (tracks results) 0 10;
                       w2 = send_embed
                              \<lparr> embed_title = Some (''Search results for '' @ search),
                                embed_description = Some (search_lines 0 found),
                                embed_fields = [], embed_footer = None \<rparr> w1
                   in case response of
                        None \<Rightarrow> (Some ValueError, w2)
                      | Some n \<Rightarrow>
                          (case py_index_int found (n - 1) of
                             None \<Rightarrow> (Some IndexError, w2)
                           | Some track \<Rightarrow>
                               (let player' = player_add api (author_id ctx) (Dict track) player
                                in (None, set_player (guild_id ctx) (play_if_idle api player') w2))))))"

subsection \<open>Voice sessions\<close>

text \<open>
  \<^verbatim>\<open>player_manager.create\<close> returns the player stored under the guild id, and
  stores a new one first when there is none.
\<close>

definition player_manager_create :: "'p player_api \<Rightarrow> int \<Rightarrow> string option \<Rightarrow> 'p world \<Rightarrow> 'p \<times> 'p world" where
  "player_manager_create api g endpoint w =
     (case players w g of
        Some player \<Rightarrow> (player, w)
      | None \<Rightarrow> (player_create api g endpoint, set_player g (player_create api g endpoint) w))"

text \<open>\<^verbatim>\<open>LavalinkVoiceClient.connect\<close> and \<^verbatim>\<open>disconnect\<close>, for a client on \<open>channel\<close>.\<close>

definition voice_connect :: "'p player_api \<Rightarrow> voice_channel \<Rightarrow> 'p world \<Rightarrow> 'p world" where
  "voice_connect api channel w =
     (let (player, w') = player_manager_create api (vc_guild_id channel) None w
      in w'\<lparr>outbox := outbox w' @ [Change_Voice_State (vc_guild_id channel) (Some (vc_id channel))]\<rparr>)"

definition voice_disconnect :: "'p player_api \<Rightarrow> voice_channel \<Rightarrow> bool \<Rightarrow> 'p world \<Rightarrow> 'p outcome" where
  "voice_disconnect api channel force w =
     (case players w (vc_guild_id channel) of
        None \<Rightarrow>
          (if \<not> force then (Some AttributeError, w)
           else (Some AttributeError,
                 w\<lparr>outbox := outbox w @ [Change_Voice_State (vc_guild_id channel) None]\<rparr>))
      | Some player \<Rightarrow>
          (if \<not> force \<and> \<not> player_is_connected api player then (None, w)
           else (None,
                 (set_player (vc_guild_id channel) (player_set_channel_id api None player) w)
                   \<lparr>outbox := outbox w @ [Change_Voice_State (vc_guild_id channel) None, Cleanup]\<rparr>)))"

definition disconnect :: "'p player_api \<Rightarrow> ctx \<Rightarrow> 'p world \<Rightarrow> 'p outcome" where
  "disconnect api ctx w =
     (case players w (guild_id ctx) of
        None \<Rightarrow> (Some AttributeError, w)
      | Some player \<Rightarrow>
          (if \<not> player_is_connected api player then (None, send ''Not connected.'' w)
           else
            (case author_voice ctx of
               None \<Rightarrow> (None, send (''You'' @ [CHR 0x27] @ ''re not in my voicechannel!'') w)
             | Some None \<Rightarrow> (Some AttributeError, w)
             | Some (Some channel) \<Rightarrow>
                 (case player_channel_id api player of
                    None \<Rightarrow> (Some TypeError, w)
                  | Some cid \<Rightarrow>
                      (if vc_id channel \<noteq> cid
                       then (None, send (''You'' @ [CHR 0x27] @ ''re not in my voicechannel!'') w)
                       else
                        (let player' = player_stop api (player_set_queue api [] player);
                             w1 = set_player (guild_id ctx) player' w
                         in case voice_client_channel ctx of
                              None \<Rightarrow> (Some AttributeError, w1)
                            | Some vc \<Rightarrow>
                                (case voice_disconnect api vc True w1 of
                                   (Some e, w2) \<Rightarrow> (Some e, w2)
                                 | (None, w2) \<Rightarrow>
                                     (None, send (''*'' @ glyph_disconnected @ '' | Disconnected.'') w2))))))))"

definition ensure_voice :: "'p player_api \<Rightarrow> ctx \<Rightarrow> 'p world \<Rightarrow> 'p outcome" where
  "ensure_voice api ctx w0 =
     (let (player, w) = player_manager_create api (guild_id ctx) (Some (guild_region ctx)) w0;
          should_connect = (command_name ctx \<in> set [''play'', ''search_music'', ''playuser'', ''join''])
      in case author_voice ctx of
           None \<Rightarrow> (Some (CommandInvokeError ''Join a voicechannel first.''), w)
         | Some None \<Rightarrow> (Some (CommandInvokeError ''Join a voicechannel first.''), w)
         | Some (Some channel) \<Rightarrow>
             (if \<not> player_is_connected api player
              then
               (if \<not> should_connect then (Some (CommandInvokeError ''Not connected.''), w)
                else if \<not> perm_connect channel \<or> \<not> perm_speak channel
                then (Some (CommandInvokeError ''I need the `CONNECT` and `SPEAK` permissions.''), w)
                else (None, voice_connect api channel
                              (set_player (guild_id ctx)
                                 (player_store api ''channel'' (channel_id ctx) player) w)))
              else
               (case player_channel_id api player of
                  None \<Rightarrow> (Some TypeError, w)
                | Some cid \<Rightarrow>
                    (if cid \<noteq> vc_id channel
                     then (Some (CommandInvokeError ''You need to be in my voicechannel.''), w)
                     else (None, w)))))"

subsection \<open>Invoking a command\<close>

datatype command =
  Join | Play string | Playuser "activity list" | Search_music string "int option"
  | Pause | Resume | Volume int | Loop | Unloop | Current | Skip | Queue int | Remove int
  | Shuffle | Lyrics "string option" | Lyricsuser "activity list" | Disconnect

definition callback :: "services \<Rightarrow> 'p player_api \<Rightarrow> ctx \<Rightarrow> command \<Rightarrow> 'p world \<Rightarrow> 'p outcome" where
  "callback sv api ctx cmd w =
     (case cmd of
        Join \<Rightarrow> join ctx w
      | Play query \<Rightarrow> play sv api ctx query w
      | Playuser activities \<Rightarrow> playuser sv api ctx activities w
      | Search_music search response \<Rightarrow> search_music sv api ctx search response w
      | Pause \<Rightarrow> pause api ctx w
      | Resume \<Rightarrow> resume api ctx w
      | Volume vol \<Rightarrow> volume api ctx vol w
      | Loop \<Rightarrow> loop api ctx w
      | Unloop \<Rightarrow> unloop api ctx w
      | Current \<Rightarrow> current sv api ctx w
      | Skip \<Rightarrow> skip api ctx w
      | Queue page \<Rightarrow> queue sv api ctx page w
      | Remove index \<Rightarrow> remove api ctx index w
      | Shuffle \<Rightarrow> shuffle api ctx w
      | Lyrics song \<Rightarrow> snd (lyrics sv api ctx song w)
      | Lyricsuser activities \<Rightarrow> lyricsuser sv ctx activities w
      | Disconnect \<Rightarrow> disconnect api ctx w)"

text \<open>
  The framework runs \<open>cog_before_invoke\<close> (which, in a guild, is \<open>ensure_voice\<close>), then
  the command's callback unless the hook raised, and hands an exception of either to
  \<open>cog_command_error\<close>, which sends its text to the channel.
\<close>

definition cog_command_error :: "py_error \<Rightarrow> 'p world \<Rightarrow> 'p world" where
  "cog_command_error error w = w\<lparr>outbox := outbox w @ [Send_Error error]\<rparr>"

definition invoke :: "services \<Rightarrow> 'p player_api \<Rightarrow> ctx \<Rightarrow> command \<Rightarrow> 'p world \<Rightarrow> 'p outcome" where
  "invoke sv api ctx cmd w =
     (case ensure_voice api ctx w of
        (Some e, w') \<Rightarrow> (Some e, cog_command_error e w')
      | (None, w') \<Rightarrow>
          (case callback sv api ctx cmd w' of
             (Some e, w'') \<Rightarrow> (Some e, cog_command_error e w'')
           | (None, w'') \<Rightarrow> (None, w'')))"

text \<open>
  What a command run in guild \<open>g\<close> can see and change: the player stored under \<open>g\<close>, the
  module's globals and the outbox.
\<close>

definition view :: "int \<Rightarrow> 'p world \<Rightarrow> 'p option \<times> bool option \<times> string option \<times> string option \<times> out_event list" where
  "view g w = (players w g, spotify w, lyricstitle w, spotifylyrics w, outbox w)"

text \<open>
  A context of the framework: the author's voice state is the one the guild holds for the
  author, and the context's voice client is the guild's, so the channels of both are
  channels of the guild.
\<close>

definition ctx_channels_in_guild :: "ctx \<Rightarrow> bool" where
  "ctx_channels_in_guild ctx =
     ((case author_voice ctx of Some (Some channel) \<Rightarrow> vc_guild_id channel = guild_id ctx | _ \<Rightarrow> True)
      \<and> (case voice_client_channel ctx of Some channel \<Rightarrow> vc_guild_id channel = guild_id ctx | None \<Rightarrow> True))"

text \<open>
  A computation is local to guild \<open>g\<close> when it leaves the players of all other guilds as
  they are, and its error and what it leaves in the view of \<open>g\<close> depend on the view of
  \<open>g\<close> only.
\<close>

definition guild_local :: "int \<Rightarrow> ('p world \<Rightarrow> 'p outcome) \<Rightarrow> bool" where
  "guild_local g h =
     ((\<forall>w k. k \<noteq> g \<longrightarrow> players (snd (h w)) k = players w k)
      \<and> (\<forall>w1 w2. view g w1 = view g w2 \<longrightarrow>
             fst (h w1) = fst (h w2) \<and> view g (snd (h w1)) = view g (snd (h w2))))"

subsection \<open>Concrete values\<close>

text \<open>A guild with a connected player that is playing one track and has one more queued.\<close>

definition track_a :: audio_track where
  "track_a = \<lparr> title = ''Song A (Lyrics)'', uri = ''https://example.org/a'', author = ''Artist A'',
               duration = 215000, stream = False, requester = 7, recommended = False \<rparr>"

definition track_b :: audio_track where
  "track_b = \<lparr> title = ''Song B'', uri = ''https://example.org/b'', author = ''Artist B'',
               duration = 61000, stream = False, requester = 7, recommended = False \<rparr>"

definition player_1 :: default_player where
  "player_1 = \<lparr> dp_guild_id = 1, dp_queue = [track_b], dp_current = Some track_a, dp_volume = 100,
                dp_repeat = False, dp_shuffle = False, dp_paused = False, dp_channel_id = Some 10,
                dp_position = 5000, dp_stored = [(''channel'', 20)] \<rparr>"

definition ctx_1 :: ctx where
  "ctx_1 = \<lparr> guild_id = 1, guild_region = ''europe'', author_id = 7,
             author_voice = Some (Some \<lparr> vc_id = 10, vc_guild_id = 1, perm_connect = True, perm_speak = True \<rparr>),
             channel_id = 20, command_name = ''pause'',
             voice_client_channel = Some \<lparr> vc_id = 10, vc_guild_id = 1, perm_connect = True, perm_speak = True \<rparr> \<rparr>"

definition world_1 :: "default_player world" where
  "world_1 = \<lparr> players = [1 \<mapsto> player_1], spotify = Some False, lyricstitle = Some ''Song A'',
               spotifylyrics = None, outbox = [] \<rparr>"

text \<open>Services that find nothing, and a formatter that prints \<open>t\<close>.\<close>

definition sv_no_hit :: services where
  "sv_no_hit = \<lparr> get_tracks = (\<lambda>q. None), search_song = (\<lambda>q. None), format_time = (\<lambda>ms. ''t''),
                 sp_track = (\<lambda>urn. None), sp_playlist_items = (\<lambda>pl_id. None) \<rparr>"

text \<open>A second guild whose player is connected and idle: nothing playing, nothing queued.\<close>

definition player_2 :: default_player where
  "player_2 = \<lparr> dp_guild_id = 2, dp_queue = [], dp_current = None, dp_volume = 100,
                dp_repeat = False, dp_shuffle = False, dp_paused = False, dp_channel_id = Some 30,
                dp_position = 0, dp_stored = [] \<rparr>"

definition ctx_2 :: ctx where
  "ctx_2 = \<lparr> guild_id = 2, guild_region = ''europe'', author_id = 8,
             author_voice = Some (Some \<lparr> vc_id = 30, vc_guild_id = 2, perm_connect = True, perm_speak = True \<rparr>),
             channel_id = 40, command_name = ''current'',
             voice_client_channel = Some \<lparr> vc_id = 30, vc_guild_id = 2, perm_connect = True, perm_speak = True \<rparr> \<rparr>"

definition world_2 :: "default_player world" where
  "world_2 = \<lparr> players = [1 \<mapsto> player_1, 2 \<mapsto> player_2], spotify = None, lyricstitle = None,
               spotifylyrics = None, outbox = [] \<rparr>"

text \<open>A third guild with eleven tracks queued.\<close>

definition player_3 :: default_player where
  "player_3 = \<lparr> dp_guild_id = 3, dp_queue = track_a # replicate 10 track_b, dp_current = Some track_a,
                dp_volume = 100, dp_repeat = False, dp_shuffle = False, dp_paused = False,
                dp_channel_id = Some 50, dp_position = 0, dp_stored = [] \<rparr>"

definition ctx_3 :: ctx where
  "ctx_3 = \<lparr> guild_id = 3, guild_region = ''europe'', author_id = 9,
             author_voice = Some (Some \<lparr> vc_id = 50, vc_guild_id = 3, perm_connect = True, perm_speak = True \<rparr>),
             channel_id = 60, command_name = ''queue'',
             voice_client_channel = Some \<lparr> vc_id = 50, vc_guild_id = 3, perm_connect = True, perm_speak = True \<rparr> \<rparr>"

definition world_3 :: "default_player world" where
  "world_3 = \<lparr> players = [3 \<mapsto> player_3], spotify = None, lyricstitle = None,
               spotifylyrics = None, outbox = [] \<rparr>"

text \<open>An audio node that finds one track for one query.\<close>

definition dict_b :: track_dict where
  "dict_b = \<lparr> info_title = ''Song B'', info_uri = ''https://example.org/b'', info_author = ''Artist B'',
              info_length = 61000, info_isStream = False \<rparr>"

definition results_b :: track_results where
  "results_b = \<lparr> loadType = ''SEARCH_RESULT'', tracks = [dict_b], playlistInfo_name = [] \<rparr>"

definition sv_hit :: services where
  "sv_hit = \<lparr> get_tracks = (\<lambda>q. if q = ''ytsearch:song b'' then Some results_b else None),
              search_song = (\<lambda>q. None), format_time = (\<lambda>ms. ''t''),
              sp_track = (\<lambda>urn. None), sp_playlist_items = (\<lambda>pl_id. None) \<rparr>"

section \<open>Theorems\<close>

lemma whitespace_nonempty: "ws \<in> set whitespace \<Longrightarrow> ws \<noteq> []"
  by (auto simp: whitespace_def)

lemma whitespace_tail: "ws \<in> set whitespace \<Longrightarrow> CHR 0x20 \<notin> set (tl ws)"
  by (auto simp: whitespace_def)

lemma space_prefix_pos:
  "0 < space_prefix s \<longleftrightarrow> (\<exists>ws \<in> set whitespace. take (length ws) s = ws)"
proof (cases "find (\<lambda>ws. take (length ws) s = ws) whitespace")
  case None
  then have "space_prefix s = 0" by (simp add: space_prefix_def)
  moreover have "\<not> (\<exists>ws \<in> set whitespace. take (length ws) s = ws)"
    using None by (simp add: find_None_iff)
  ultimately show ?thesis by simp
next
  case (Some ws)
  then have "ws \<in> set whitespace" "take (length ws) s = ws"
    by (auto simp: find_Some_iff)
  then show ?thesis
    using Some whitespace_nonempty [of ws] by (auto simp: space_prefix_def)
qed

lemma space_prefix_blank: "space_prefix (CHR 0x20 # s) = 1"
  by (simp add: space_prefix_def whitespace_def)

lemma space_prefix_context:
  assumes "u \<noteq> []" and "space_prefix (u @ r) = 0"
  shows "space_prefix u = 0" and "space_prefix (u @ CHR 0x20 # s) = 0"
proof -
  have no: "\<And>ws. ws \<in> set whitespace \<Longrightarrow> take (length ws) (u @ r) \<noteq> ws"
    using assms(2) space_prefix_pos [of "u @ r"] by auto
  have inner: "take (length ws) u \<noteq> ws" if "ws \<in> set whitespace" "length ws \<le> length u" for ws
    using no [OF that(1)] that(2) by simp
  show "space_prefix u = 0"
  proof (rule ccontr)
    assume "space_prefix u \<noteq> 0"
    then obtain ws where ws: "ws \<in> set whitespace" "take (length ws) u = ws"
      using space_prefix_pos [of u] by auto
    from ws(2) have "length (take (length ws) u) = length ws" by simp
    then have "length ws \<le> length u" by simp
    with inner [OF ws(1)] ws(2) show False by blast
  qed
  show "space_prefix (u @ CHR 0x20 # s) = 0"
  proof (rule ccontr)
    assume "space_prefix (u @ CHR 0x20 # s) \<noteq> 0"
    then obtain ws where ws: "ws \<in> set whitespace" "take (length ws) (u @ CHR 0x20 # s) = ws"
      using space_prefix_pos [of "u @ CHR 0x20 # s"] by auto
    show False
    proof (cases "length ws \<le> length u")
      case True
      then have "take (length ws) u = ws" using ws(2) by simp
      with inner [OF ws(1) True] show False by blast
    next
      case False
      then have "ws = u @ CHR 0x20 # take (length ws - Suc (length u)) s"
        using ws(2) by (simp add: take_Cons' not_le)
      then obtain y where y: "ws = u @ CHR 0x20 # y" by blast
      obtain a u' where u: "u = a # u'" using assms(1) by (cases u) auto
      have "CHR 0x20 \<in> set (tl ws)" by (simp add: y u)
      with whitespace_tail [OF ws(1)] show False by blast
    qed
  qed
qed

lemma word_head_tail: "word_head s @ word_tail s = s"
  by (induction s) auto

lemma word_head_clear:
  "i < length (word_head s) \<Longrightarrow> space_prefix (drop i (word_head s) @ word_tail s) = 0"
proof (induction s arbitrary: i)
  case Nil
  then show ?case by simp
next
  case (Cons c cs)
  show ?case
  proof (cases "0 < space_prefix (c # cs)")
    case True
    with Cons.prems show ?thesis by simp
  next
    case False
    show ?thesis
    proof (cases i)
      case 0
      then show ?thesis using False by (simp add: word_head_tail)
    next
      case (Suc j)
      then have "j < length (word_head cs)" using Cons.prems False by simp
      from Cons.IH [OF this] show ?thesis using False Suc by simp
    qed
  qed
qed

lemma split_words: "list_all word (py_split s)"
proof (induction s rule: py_split.induct)
  case 1
  show ?case by simp
next
  case (2 c cs)
  show ?case
  proof (cases "0 < space_prefix (c # cs)")
    case True
    with 2 show ?thesis by simp
  next
    case False
    let ?w = "c # word_head cs"
    have clear: "space_prefix (drop i ?w @ word_tail cs) = 0" if "i < length ?w" for i
    proof (cases i)
      case 0
      then show ?thesis using False by (simp add: word_head_tail)
    next
      case (Suc j)
      then have "j < length (word_head cs)" using that by simp
      from word_head_clear [OF this] show ?thesis using Suc by simp
    qed
    have "word ?w"
      unfolding word_def
    proof (intro conjI allI impI)
      show "?w \<noteq> []" by simp
    next
      fix i assume i: "i < length ?w"
      then have "drop i ?w \<noteq> []" by simp
      from space_prefix_context(1) [OF this clear [OF i]]
      show "space_prefix (drop i ?w) = 0" .
    next
      fix i t assume i: "i < length ?w"
      then have "drop i ?w \<noteq> []" by simp
      from space_prefix_context(2) [OF this clear [OF i]]
      show "space_prefix (drop i ?w @ CHR 0x20 # t) = 0" .
    qed
    with 2 False show ?thesis by simp
  qed
qed

lemma word_head_blank:
  "(\<And>i. i < length cs \<Longrightarrow> space_prefix (drop i cs @ CHR 0x20 # s) = 0) \<Longrightarrow>
     word_head (cs @ CHR 0x20 # s) = cs \<and> word_tail (cs @ CHR 0x20 # s) = CHR 0x20 # s"
proof (induction cs)
  case Nil
  show ?case by (simp add: space_prefix_blank)
next
  case (Cons d ds)
  have "space_prefix ((d # ds) @ CHR 0x20 # s) = 0"
    using Cons.prems [of 0] by simp
  moreover have "word_head (ds @ CHR 0x20 # s) = ds \<and> word_tail (ds @ CHR 0x20 # s) = CHR 0x20 # s"
  proof (rule Cons.IH)
    fix i assume "i < length ds"
    then show "space_prefix (drop i ds @ CHR 0x20 # s) = 0"
      using Cons.prems [of "Suc i"] by simp
  qed
  ultimately show ?case by simp
qed

lemma word_head_end:
  "(\<And>i. i < length cs \<Longrightarrow> space_prefix (drop i cs) = 0) \<Longrightarrow>
     word_head cs = cs \<and> word_tail cs = []"
proof (induction cs)
  case Nil
  show ?case by simp
next
  case (Cons d ds)
  have "space_prefix (d # ds) = 0"
    using Cons.prems [of 0] by simp
  moreover have "word_head ds = ds \<and> word_tail ds = []"
  proof (rule Cons.IH)
    fix i assume "i < length ds"
    then show "space_prefix (drop i ds) = 0"
      using Cons.prems [of "Suc i"] by simp
  qed
  ultimately show ?case by simp
qed

lemma split_word_app:
  assumes "word w"
  shows "py_split (w @ CHR 0x20 # s) = w # py_split s"
proof -
  obtain c cs where w: "w = c # cs" using assms by (cases w) (auto simp: word_def)
  have z: "space_prefix (drop i w @ CHR 0x20 # s) = 0" if "i < length w" for i
    using assms that by (simp add: word_def)
  have z0: "space_prefix (c # cs @ CHR 0x20 # s) = 0"
    using z [of 0] by (simp add: w)
  have ht: "word_head (cs @ CHR 0x20 # s) = cs \<and> word_tail (cs @ CHR 0x20 # s) = CHR 0x20 # s"
  proof (rule word_head_blank)
    fix i assume "i < length cs"
    then show "space_prefix (drop i cs @ CHR 0x20 # s) = 0"
      using z [of "Suc i"] by (simp add: w)
  qed
  show ?thesis
    by (simp add: w z0 ht space_prefix_blank)
qed

lemma split_word:
  assumes "word w"
  shows "py_split w = [w]"
proof -
  obtain c cs where w: "w = c # cs" using assms by (cases w) (auto simp: word_def)
  have z: "space_prefix (drop i w) = 0" if "i < length w" for i
    using assms that by (simp add: word_def)
  have z0: "space_prefix (c # cs) = 0"
    using z [of 0] by (simp add: w)
  have ht: "word_head cs = cs \<and> word_tail cs = []"
  proof (rule word_head_end)
    fix i assume "i < length cs"
    then show "space_prefix (drop i cs) = 0"
      using z [of "Suc i"] by (simp add: w)
  qed
  show ?thesis
    by (simp add: w z0 ht)
qed

lemma split_join: "list_all word ws \<Longrightarrow> py_split (py_join '' '' ws) = ws"
  by (induction "'' ''" ws rule: py_join.induct) (simp_all add: split_word split_word_app)


lemma take_nths:
  "6 \<le> length ws \<Longrightarrow> take 6 ws = [ws ! 0, ws ! 1, ws ! 2, ws ! 3, ws ! 4, ws ! 5]"
  "5 \<le> length ws \<Longrightarrow> take 5 ws = [ws ! 0, ws ! 1, ws ! 2, ws ! 3, ws ! 4]"
  "4 \<le> length ws \<Longrightarrow> take 4 ws = [ws ! 0, ws ! 1, ws ! 2, ws ! 3]"
  "3 \<le> length ws \<Longrightarrow> take 3 ws = [ws ! 0, ws ! 1, ws ! 2]"
  "2 \<le> length ws \<Longrightarrow> take 2 ws = [ws ! 0, ws ! 1]"
  by (auto simp: eval_nat_numeral Suc_le_length_iff)

lemma try6_take:
  "try6 t = (if 6 \<le> length (py_split t) then Some (py_join ''  '' (take 6 (py_split t))) else None)"
  by (simp add: try6_def py_index_def take_nths)

lemma try5_take:
  "try5 t = (if 5 \<le> length (py_split t) then Some (py_join ''  '' (take 5 (py_split t))) else None)"
  by (simp add: try5_def py_index_def take_nths)

lemma try4_take:
  "try4 t = (if 4 \<le> length (py_split t) then Some (py_join ''  '' (take 4 (py_split t))) else None)"
  by (simp add: try4_def py_index_def take_nths)

lemma try3_take:
  "try3 t = (if 3 \<le> length (py_split t) then Some (py_join ''  '' (take 3 (py_split t))) else None)"
  by (simp add: try3_def py_index_def take_nths)

lemma try2_take:
  "try2 t = (if 2 \<le> length (py_split t) then Some (py_join ''  '' (take 2 (py_split t))) else None)"
  by (simp add: try2_def py_index_def take_nths)

lemma fallback_chain_take:
  "fallback_chain t =
     (if 2 \<le> length (py_split t)
      then Composed (py_join ''  '' (take (min 6 (length (py_split t))) (py_split t)))
      else Not_Found)"
proof -
  let ?n = "length (py_split t)"
  consider "6 \<le> ?n" | "?n = 5" | "?n = 4" | "?n = 3" | "?n = 2" | "?n < 2" by linarith
  then show ?thesis
    by cases (simp_all add: fallback_chain_def try6_take try5_take try4_take try3_take try2_take)
qed
lemma ceil_div_ceiling: "ceil_div n d = \<lceil>real n / real d\<rceil>"
proof -
  have "\<lceil>real n / real d\<rceil> = - \<lfloor>- (real_of_int (int n) / real_of_int (int d))\<rfloor>"
    by (simp add: ceiling_def)
  also have "\<dots> = - \<lfloor>real_of_int (- int n) / real_of_int (int d)\<rfloor>"
    by simp
  also have "\<dots> = - ((- int n) div int d)"
    by (simp only: floor_divide_of_int_eq)
  finally show ?thesis by (simp add: ceil_div_def)
qed

lemma last_time: "foldl (\<lambda>_ track. Some (f track)) acc xs = (if xs = [] then acc else Some (f (last xs)))"
  by (induction xs arbitrary: acc) auto

lemma queue_lines_nth:
  "queue_lines i xs = concat (map (\<lambda>k. queue_line (i + int k) (xs ! k)) [0..<length xs])"
proof (induction xs arbitrary: i)
  case Nil
  show ?case by simp
next
  case (Cons x xs)
  have "[0..<length (x # xs)] = 0 # map Suc [0..<length xs]"
    by (simp add: upt_conv_Cons map_Suc_upt del: upt_Suc)
  then show ?case
    by (simp add: Cons.IH comp_def add.assoc del: upt_Suc)
qed

lemma page_start:
  assumes "1 \<le> page" and "page \<le> ceil_div n 10"
  shows "nat ((page - 1) * 10) < n"
proof -
  define k where "k = (- int n) div 10"
  define r where "r = (- int n) mod 10"
  have e: "- int n = 10 * k + r" by (simp add: k_def r_def)
  have r: "0 \<le> r" "r < 10" by (simp_all add: r_def)
  have "page \<le> - k" using assms(2) by (simp add: ceil_div_def k_def)
  moreover have "(page - 1) * 10 = 10 * page - 10" by (simp add: algebra_simps)
  ultimately have "(page - 1) * 10 < int n" using e r by linarith
  moreover have "0 \<le> (page - 1) * 10" using assms(1) by simp
  ultimately show ?thesis by linarith
qed

lemma slice_bound_nonneg: "0 \<le> i \<Longrightarrow> slice_bound n i = min (nat i) n"
  by (simp add: slice_bound_def)

lemma slice_window:
  assumes "0 \<le> st" and "nat st < length q"
  shows "py_slice q st (st + 10) = take 10 (drop (nat st) q)"
proof -
  have s: "slice_bound (length q) st = nat st"
    using assms by (simp add: slice_bound_nonneg)
  have e: "slice_bound (length q) (st + 10) = min (nat st + 10) (length q)"
    using assms(1) by (simp add: slice_bound_nonneg nat_add_distrib)
  show ?thesis
  proof (cases "nat st + 10 \<le> length q")
    case True
    then show ?thesis by (simp add: py_slice_def s e Let_def)
  next
    case False
    then have "take 10 (drop (nat st) q) = drop (nat st) q" by simp
    moreover have "take (length q - nat st) (drop (nat st) q) = drop (nat st) q" by simp
    ultimately show ?thesis using False by (simp add: py_slice_def s e Let_def min_def)
  qed
qed


lemma digits_eval:
  "digits (Suc 0) = ''1''" "digits 1 = ''1''" "digits 2 = ''2''" "digits 11 = ''11''" "digits 19 = ''19''"
  by (simp_all add: digits.simps)

lemma default_add_all:
  "foldl (\<lambda>p track. player_add (default_api r) a (Dict track) p) pd ts
     = pd\<lparr>dp_queue := dp_queue pd @ map (\<lambda>track. AudioTrack track a False) ts\<rparr>"
  by (induction ts arbitrary: pd) (simp_all add: default_api_def)

lemma resolve_song_b: "resolve_query sv_hit ''song b'' = ''ytsearch:song b''"
  by (simp add: resolve_query_def py_strip_def sv_hit_def search_prefix_def url_rx_match_def)

lemma strip_song_b: "py_strip ''ytsearch:'' ''ytsearch:song b'' = ''ong b''"
  by (simp add: py_strip_def)

lemma lookups_append: "lookups (xs @ ys) = lookups xs @ lookups ys"
  by (induction xs rule: lookups.induct) simp_all

lemma searches_append: "searches (xs @ ys) = searches xs @ searches ys"
  by (induction xs rule: searches.induct) simp_all

lemma playuser_loop_lookups:
  "players w (guild_id ctx) \<noteq> None \<Longrightarrow>
   \<exists>n. lookups (outbox (snd (playuser_loop sv api ctx acts w)))
          = lookups (outbox w) @ take n (map (\<lambda>(t, a). playuser_query t a) (spotify_activities acts))
       \<and> (spotify_activities acts \<noteq> [] \<longrightarrow> 0 < n)"
proof (induction acts arbitrary: w)
  case Nil
  show ?case by simp
next
  case (Cons act rest)
  show ?case
  proof (cases act)
    case (Other_Activity name)
    have "players (send make_sure w) (guild_id ctx) \<noteq> None"
      using Cons.prems by (simp add: send_def)
    from Cons.IH [OF this] show ?thesis
      by (simp add: Other_Activity send_def lookups_append)
  next
    case (Spotify t a)
    let ?q = "playuser_query t a"
    let ?w = "w\<lparr>spotifylyrics := Some ?q\<rparr>"
    let ?w1 = "?w\<lparr>outbox := outbox ?w @ [Get_Tracks ?q]\<rparr>"
    obtain player where pl: "players w (guild_id ctx) = Some player"
      using Cons.prems by blast
    show ?thesis
    proof (cases "\<exists>results track more. get_tracks sv ?q = Some results \<and> tracks results = track # more")
      case False
      then have "playuser_loop sv api ctx (act # rest) w = (None, send ''Nothing found!'' ?w1)"
        using pl by (auto simp: Spotify Let_def split: option.splits list.splits)
      then have "lookups (outbox (snd (playuser_loop sv api ctx (act # rest) w)))
                   = lookups (outbox w) @ take 1 (map (\<lambda>(t, a). playuser_query t a) (spotify_activities (act # rest)))"
        by (simp add: send_def lookups_append Spotify)
      then show ?thesis by (intro exI [of _ 1]) simp
    next
      case True
      then obtain results track more where
        r: "get_tracks sv ?q = Some results" "tracks results = track # more" by blast
      obtain player' embed where en: "enqueue api ctx results track player = (player', embed)"
        by (cases "enqueue api ctx results track player")
      let ?w3 = "set_player (guild_id ctx) (play_if_idle api player')
                   (send_embed embed (set_player (guild_id ctx) player' ?w1))"
      have step: "playuser_loop sv api ctx (act # rest) w = playuser_loop sv api ctx rest ?w3"
        using pl r en by (simp add: Spotify Let_def)
      have "players ?w3 (guild_id ctx) \<noteq> None"
        by (simp add: set_player_def)
      from Cons.IH [OF this] obtain n where
        n: "lookups (outbox (snd (playuser_loop sv api ctx rest ?w3)))
              = lookups (outbox ?w3) @ take n (map (\<lambda>(t, a). playuser_query t a) (spotify_activities rest))"
        by blast
      have ob: "lookups (outbox ?w3) = lookups (outbox w) @ [?q]"
        by (simp add: set_player_def send_embed_def lookups_append)
      have "lookups (outbox (snd (playuser_loop sv api ctx (act # rest) w)))
              = lookups (outbox w) @ take (Suc n) (map (\<lambda>(t, a). playuser_query t a) (spotify_activities (act # rest)))"
        by (simp only: step n ob) (simp add: Spotify)
      then show ?thesis by (intro exI [of _ "Suc n"]) simp
    qed
  qed
qed

lemma lyricsuser_loop_searches:
  "\<exists>n. searches (outbox (snd (lyricsuser_loop sv acts w)))
          = searches (outbox w) @ take n (map fst (spotify_activities acts))
       \<and> (spotify_activities acts \<noteq> [] \<longrightarrow> 0 < n)"
proof (induction acts arbitrary: w)
  case Nil
  show ?case by simp
next
  case (Cons act rest)
  show ?case
  proof (cases act)
    case (Other_Activity name)
    from Cons.IH [of w] show ?thesis by (simp add: Other_Activity)
  next
    case (Spotify t a)
    let ?w1 = "w\<lparr>outbox := outbox w @ [Genius_Search t]\<rparr>"
    show ?thesis
    proof (cases "search_song sv t")
      case None
      then have "searches (outbox (snd (lyricsuser_loop sv (act # rest) w)))
                   = searches (outbox w) @ take 1 (map fst (spotify_activities (act # rest)))"
        by (simp add: Spotify genius_search_def searches_append)
      then show ?thesis by (intro exI [of _ 1]) simp
    next
      case (Some lyricsz)
      let ?w2 = "send_embed (lyric_embed t (lyrics_text lyricsz)) ?w1"
      have step: "lyricsuser_loop sv (act # rest) w = lyricsuser_loop sv rest ?w2"
        using Some by (simp add: Spotify genius_search_def)
      from Cons.IH [of ?w2] obtain n where
        n: "searches (outbox (snd (lyricsuser_loop sv rest ?w2)))
              = searches (outbox ?w2) @ take n (map fst (spotify_activities rest))"
        by blast
      have "searches (outbox (snd (lyricsuser_loop sv (act # rest) w)))
              = searches (outbox w) @ take (Suc n) (map fst (spotify_activities (act # rest)))"
        by (simp only: step n) (simp add: Spotify send_embed_def searches_append)
      then show ?thesis by (intro exI [of _ "Suc n"]) simp
    qed
  qed
qed








text \<open>
  C2. The voice-client adapter relays voice events by a pure field remap. For every
  payload and every handler of the audio client, \<open>on_voice_server_update\<close> is one call
  of the handler on a dictionary with exactly the keys \<open>'t'\<close> and \<open>'d'\<close>, holding
  \<open>'VOICE_SERVER_UPDATE'\<close> and the payload itself; \<open>on_voice_state_update\<close> is the
  same with \<open>'VOICE_STATE_UPDATE'\<close>. With the recording handler, the audio client has
  received one more dictionary, that one, and the payload read back from its \<open>'d'\<close>
  field is the original.
\<close>

theorem voice_relay_field_remap:
  "on_voice_server_update h data c
     = h [''t'' \<mapsto> Str ''VOICE_SERVER_UPDATE'', ''d'' \<mapsto> Payload data] c
   \<and> on_voice_state_update h data c
     = h [''t'' \<mapsto> Str ''VOICE_STATE_UPDATE'', ''d'' \<mapsto> Payload data] c
   \<and> on_voice_server_update record_update data received
     = received @ [[''t'' \<mapsto> Str ''VOICE_SERVER_UPDATE'', ''d'' \<mapsto> Payload data]]
   \<and> on_voice_state_update record_update data received
     = received @ [[''t'' \<mapsto> Str ''VOICE_STATE_UPDATE'', ''d'' \<mapsto> Payload data]]
   \<and> dom [''t'' \<mapsto> Str ''VOICE_SERVER_UPDATE'', ''d'' \<mapsto> Payload data] = {''t'', ''d''}
   \<and> dom [''t'' \<mapsto> Str ''VOICE_STATE_UPDATE'', ''d'' \<mapsto> Payload data] = {''t'', ''d''}
   \<and> [''t'' \<mapsto> Str ''VOICE_SERVER_UPDATE'', ''d'' \<mapsto> Payload data] ''t''
     = Some (Str ''VOICE_SERVER_UPDATE'')
   \<and> [''t'' \<mapsto> Str ''VOICE_STATE_UPDATE'', ''d'' \<mapsto> Payload data] ''t''
     = Some (Str ''VOICE_STATE_UPDATE'')
   \<and> [''t'' \<mapsto> Str ''VOICE_SERVER_UPDATE'', ''d'' \<mapsto> Payload data] ''d''
     = Some (Payload data)
   \<and> [''t'' \<mapsto> Str ''VOICE_STATE_UPDATE'', ''d'' \<mapsto> Payload data] ''d''
     = Some (Payload data)"
  by (auto simp: on_voice_server_update_def on_voice_state_update_def record_update_def)
lemma split_clean_title:
  "py_split (clean_title new) = filter (\<lambda>word. word \<notin> set stopwords) (py_split new)"
proof -
  have "list_all word (filter (\<lambda>word. word \<notin> set stopwords) (py_split new))"
    using split_words [of new] by (simp add: list_all_iff)
  then show ?thesis
    by (simp add: clean_title_def split_join)
qed

text \<open>
  C1. The lyrics command with no song argument, Spotify mode off and a failed search for
  the stored play-query title (the global is unset, or the lyrics service has no hit for
  it) composes its query from the current track's title with the stop words removed: the
  first six words when there are six, else the first five, four, three or two, each
  attempt made only when the longer one could not be formed; the words are joined by two
  spaces. It sends \<open>Lyrics not Found\<close> exactly when there are fewer than two words, so
  that no truncation can be formed. \<open>rw\<close> are the words of the title outside the
  stop-word list; words are what \<open>split()\<close> gives, separated by any Unicode
  whitespace.
\<close>

theorem lyrics_fallback_chain:
  assumes "players w (guild_id ctx) = Some player"
      and "player_current api player = Some cur"
      and "spotify w = Some False"
      and "rw = filter (\<lambda>word. word \<notin> set stopwords) (py_split (title cur))"
      and "w' = (case lyricstitle w of None \<Rightarrow> w
                 | Some q \<Rightarrow> w\<lparr>outbox := outbox w @ [Genius_Search q]\<rparr>)"
      and "lyricstitle w = None \<or> (\<exists>q. lyricstitle w = Some q \<and> search_song sv q = None)"
  shows "lyrics sv api ctx None w =
           (if 6 \<le> length rw then (Some (py_join ''  '' (take 6 rw)), None, w')
            else if 5 \<le> length rw then (Some (py_join ''  '' (take 5 rw)), None, w')
            else if 4 \<le> length rw then (Some (py_join ''  '' (take 4 rw)), None, w')
            else if 3 \<le> length rw then (Some (py_join ''  '' (take 3 rw)), None, w')
            else if 2 \<le> length rw then (Some (py_join ''  '' (take 2 rw)), None, w')
            else (lyricstitle w, None, send ''Lyrics not Found'' w'))"
proof -
  have sp: "py_split (clean_title (title cur)) = rw"
    using assms(4) by (simp add: split_clean_title)
  have fb: "fallback_chain (clean_title (title cur)) =
              (if 6 \<le> length rw then Composed (py_join ''  '' (take 6 rw))
               else if 5 \<le> length rw then Composed (py_join ''  '' (take 5 rw))
               else if 4 \<le> length rw then Composed (py_join ''  '' (take 4 rw))
               else if 3 \<le> length rw then Composed (py_join ''  '' (take 3 rw))
               else if 2 \<le> length rw then Composed (py_join ''  '' (take 2 rw))
               else Not_Found)"
    by (simp add: fallback_chain_def try6_take try5_take try4_take try3_take try2_take sp)
  from assms(6) show ?thesis
  proof
    assume n: "lyricstitle w = None"
    then show ?thesis
      using assms(1,2,3,5) by (simp add: lyrics_def fb)
  next
    assume "\<exists>q. lyricstitle w = Some q \<and> search_song sv q = None"
    then obtain q where q: "lyricstitle w = Some q" "search_song sv q = None" by blast
    then show ?thesis
      using assms(1,2,3,5) by (simp add: lyrics_def genius_search_def fb)
  qed
qed

text \<open>
  Two titles outside ASCII: two CJK characters with no blank between them are one word
  (the second byte of neither is a blank), and an em space (U+2003) separates two words.
\<close>

lemma split_unicode:
  "py_split [CHR 0xE4, CHR 0xBD, CHR 0xA0, CHR 0xE5, CHR 0xA5, CHR 0xBD]
     = [[CHR 0xE4, CHR 0xBD, CHR 0xA0, CHR 0xE5, CHR 0xA5, CHR 0xBD]]"
  "py_split (''Song'' @ [CHR 0xE2, CHR 0x80, CHR 0x83] @ ''A'') = [''Song'', ''A'']"
  by (simp_all add: space_prefix_def whitespace_def)

lemma split_track_a: "py_split (title track_a) = [''Song'', ''A'', ''(Lyrics)'']"
  by (simp add: track_a_def space_prefix_def whitespace_def)

theorem lyrics_fallback_chain_witness:
  "players world_1 (guild_id ctx_1) = Some player_1
   \<and> player_current (default_api (\<lambda>n. 0)) player_1 = Some track_a
   \<and> spotify world_1 = Some False
   \<and> lyricstitle world_1 = Some ''Song A'' \<and> search_song sv_no_hit ''Song A'' = None
   \<and> lyrics sv_no_hit (default_api (\<lambda>n. 0)) ctx_1 None world_1 =
        (Some ''Song  A'', None, world_1\<lparr>outbox := [Genius_Search ''Song A'']\<rparr>)"
  using lyrics_fallback_chain [of world_1 ctx_1 player_1 "default_api (\<lambda>n. 0)" track_a
      "[''Song'', ''A'']" "world_1\<lparr>outbox := [Genius_Search ''Song A'']\<rparr>" sv_no_hit]
  by (simp add: world_1_def ctx_1_def player_1_def default_api_def sv_no_hit_def
      split_track_a stopwords_def)

text \<open>
  C7. Pause and resume are pure delegations. For every implementation of the audio
  client's player methods, \<open>pause\<close> replaces the player of the invoking guild by
  \<open>set_pause(True)\<close> of it, \<open>resume\<close> by \<open>set_pause(False)\<close> of it, and each adds
  one reaction to the invoking message; players of other guilds and the module's globals are
  as before. On the default player, where \<open>set_pause\<close> stores the flag, the player after
  the command is the player before with the paused flag set: the queue, the current track,
  the volume, the repeat and shuffle flags are unchanged.
\<close>

theorem pause_resume_only_set_pause:
  assumes "players w (guild_id ctx) = Some player"
      and "players wd (guild_id ctx) = Some pd"
  shows "pause api ctx w =
           (None, w\<lparr>players := (players w)(guild_id ctx \<mapsto> player_set_pause api True player),
                    outbox := outbox w @ [Add_Reaction glyph_pause]\<rparr>)
       \<and> resume api ctx w =
           (None, w\<lparr>players := (players w)(guild_id ctx \<mapsto> player_set_pause api False player),
                    outbox := outbox w @ [Add_Reaction glyph_resume]\<rparr>)
       \<and> players (snd (pause (default_api r) ctx wd)) (guild_id ctx) = Some (pd\<lparr>dp_paused := True\<rparr>)
       \<and> players (snd (resume (default_api r) ctx wd)) (guild_id ctx) = Some (pd\<lparr>dp_paused := False\<rparr>)"
  using assms
  by (simp add: pause_def resume_def add_reaction_def set_player_def default_api_def)

theorem pause_resume_only_set_pause_witness:
  "players world_1 (guild_id ctx_1) = Some player_1
   \<and> pause (default_api (\<lambda>n. 0)) ctx_1 world_1 =
        (None, world_1\<lparr>players := (players world_1)(guild_id ctx_1 \<mapsto> player_1\<lparr>dp_paused := True\<rparr>),
                       outbox := [Add_Reaction glyph_pause]\<rparr>)
   \<and> players (snd (resume (default_api (\<lambda>n. 0)) ctx_1 world_1)) (guild_id ctx_1)
        = Some (player_1\<lparr>dp_paused := False\<rparr>)"
  using pause_resume_only_set_pause [of world_1 ctx_1 player_1 world_1 player_1 "default_api (\<lambda>n. 0)" "\<lambda>n. 0"]
  by (simp add: world_1_def ctx_1_def default_api_def)
text \<open>
  C8. Whenever the current command runs while no track is playing
  (\<^verbatim>\<open>player.current\<close> is \<open>None\<close>), the handler fails with an attribute error and
  sends nothing: the outbox is as it was, and so is everything else. The guard on
  \<^verbatim>\<open>player.current\<close> covers only the position and the duration.
\<close>

theorem current_without_track_raises:
  assumes "players w (guild_id ctx) = Some player"
      and "player_current api player = None"
  shows "current sv api ctx w = (Some AttributeError, w)"
  using assms by (simp add: current_def)

theorem current_without_track_raises_witness:
  "players world_2 (guild_id ctx_2) = Some player_2
   \<and> player_current (default_api (\<lambda>n. 0)) player_2 = None
   \<and> current sv_no_hit (default_api (\<lambda>n. 0)) ctx_2 world_2 = (Some AttributeError, world_2)"
  using current_without_track_raises [of world_2 ctx_2 player_2 "default_api (\<lambda>n. 0)" sv_no_hit]
  by (simp add: world_2_def ctx_2_def player_2_def default_api_def)

text \<open>
  C10 (as amended). For a non-empty queue and a page number between 1 and the page count
  \<open>\<lceil>n / 10\<rceil>\<close>, the queue command sends one embed. Its footer names the page and
  the page count; the value after \<open>total queue time =\<close> is the formatted duration of
  the last track on the page, not a sum; and the page lists the tracks at queue
  positions \<open>(page - 1) * 10\<close> up to \<open>page * 10 - 1\<close> (as far as the queue goes), one
  line each, in order, numbered by position plus one.
\<close>

theorem queue_page_in_range:
  assumes "players w (guild_id ctx) = Some player"
      and "q = player_queue api player" and "q \<noteq> []"
      and "1 \<le> page" and "page \<le> \<lceil>real (length q) / 10\<rceil>"
      and "start = nat ((page - 1) * 10)"
      and "shown = take 10 (drop start q)"
  shows "shown \<noteq> [] \<and> start < length q \<and> length shown = min 10 (length q - start)
       \<and> queue sv api ctx page w =
           (None, send_embed
              \<lparr> embed_title = None,
                embed_description =
                  Some (''**'' @ str_int (int (length q)) @ '' tracks**'' @ [CHR 0x0A]
                        @ ''total queue time = '' @ format_time sv (duration (last shown))
                        @ [CHR 0x0A, CHR 0x0A]
                        @ concat (map (\<lambda>k. ''`'' @ str_int (int (start + k) + 1) @ ''.` [**''
                                         @ title (q ! (start + k)) @ ''**]('' @ uri (q ! (start + k))
                                         @ '')'' @ [CHR 0x0A])
                                    [0..<length shown])),
                embed_fields = [],
                embed_footer =
                  Some (''Viewing page '' @ str_int page @ ''/'' @ str_int \<lceil>real (length q) / 10\<rceil>) \<rparr> w)"
proof -
  have pg: "page \<le> ceil_div (length q) 10"
    using assms(5) by (simp add: ceil_div_ceiling)
  have lt: "start < length q"
    using page_start [OF assms(4) pg] assms(6) by simp
  have nn: "0 \<le> (page - 1) * 10" using assms(4) by simp
  have sl: "py_slice q ((page - 1) * 10) ((page - 1) * 10 + 10) = shown"
    using slice_window [OF nn] lt assms(6,7) by simp
  have ne: "shown \<noteq> []" using lt assms(7) by simp
  have len: "length shown = min 10 (length q - start)" using assms(7) by simp
  have nth: "\<And>k. k < length shown \<Longrightarrow> shown ! k = q ! (start + k)"
    using assms(7) lt by (simp add: nth_drop)
  have lines: "queue_lines ((page - 1) * 10) shown =
      concat (map (\<lambda>k. ''`'' @ str_int (int (start + k) + 1) @ ''.` [**''
                         @ title (q ! (start + k)) @ ''**]('' @ uri (q ! (start + k))
                         @ '')'' @ [CHR 0x0A]) [0..<length shown])"
    unfolding queue_lines_nth
    by (rule arg_cong [where f = concat], rule map_cong)
       (use nn nth assms(6) in \<open>auto simp: queue_line_def\<close>)
  have qt: "foldl (\<lambda>_ track. Some (format_time sv (duration track))) None shown
              = Some (format_time sv (duration (last shown)))"
    using ne by (simp add: last_time)
  have pages: "ceil_div (length q) 10 = \<lceil>real (length q) / 10\<rceil>"
    by (simp add: ceil_div_ceiling)
  have "queue sv api ctx page w = (None, send_embed
              \<lparr> embed_title = None,
                embed_description =
                  Some (''**'' @ str_int (int (length q)) @ '' tracks**'' @ [CHR 0x0A]
                        @ ''total queue time = '' @ format_time sv (duration (last shown))
                        @ [CHR 0x0A, CHR 0x0A]
                        @ queue_lines ((page - 1) * 10) shown),
                embed_fields = [],
                embed_footer =
                  Some (''Viewing page '' @ str_int page @ ''/'' @ str_int (ceil_div (length q) 10)) \<rparr> w)"
    unfolding queue_def Let_def
    using assms(1,3) assms(2) [symmetric] sl qt
    by (simp del: foldl.simps)
  then show ?thesis
    using ne lt len by (simp only: lines pages simp_thms)
qed




theorem queue_page_in_range_witness:
  "players world_3 (guild_id ctx_3) = Some player_3
   \<and> player_queue (default_api (\<lambda>n. 0)) player_3 \<noteq> []
   \<and> (1::int) \<le> 2 \<and> (2::int) \<le> \<lceil>real (length (player_queue (default_api (\<lambda>n. 0)) player_3)) / 10\<rceil>
   \<and> queue sv_no_hit (default_api (\<lambda>n. 0)) ctx_3 2 world_3 =
       (None, send_embed
          \<lparr> embed_title = None,
            embed_description =
              Some (''**11 tracks**'' @ [CHR 0x0A] @ ''total queue time = t'' @ [CHR 0x0A, CHR 0x0A]
                    @ ''`11.` [**Song B**](https://example.org/b)'' @ [CHR 0x0A]),
            embed_fields = [],
            embed_footer = Some ''Viewing page 2/2'' \<rparr> world_3)"
proof -
  let ?api = "default_api (\<lambda>n. 0)"
  let ?q = "track_a # replicate 10 track_b"
  have q: "player_queue ?api player_3 = ?q"
    by (simp add: default_api_def player_3_def)
  have a1: "players world_3 (guild_id ctx_3) = Some player_3"
    by (simp add: world_3_def ctx_3_def)
  have a3: "?q \<noteq> []" by simp
  have a4: "(1::int) \<le> 2" by simp
  have a5: "(2::int) \<le> \<lceil>real (length ?q) / 10\<rceil>" by simp
  have st: "(10::nat) = nat ((2 - 1) * 10)" by simp
  have sh: "[track_b] = take 10 (drop 10 ?q)" by simp
  have nth: "?q ! 10 = track_b" by simp
  note T = queue_page_in_range [OF a1 q [symmetric] a3 a4 a5 st sh, of sv_no_hit]
  have "queue sv_no_hit ?api ctx_3 2 world_3 =
       (None, send_embed
          \<lparr> embed_title = None,
            embed_description =
              Some (''**11 tracks**'' @ [CHR 0x0A] @ ''total queue time = t'' @ [CHR 0x0A, CHR 0x0A]
                    @ ''`11.` [**Song B**](https://example.org/b)'' @ [CHR 0x0A]),
            embed_fields = [],
            embed_footer = Some ''Viewing page 2/2'' \<rparr> world_3)"
    using T nth
    by (simp add: sv_no_hit_def str_int_def digits_eval track_b_def)
  then show ?thesis using a1 a4 a5 q by simp
qed

text \<open>
  The claim as first stated puts no bound on the page number. On page \<open>-1\<close> of a queue
  of eleven tracks the command does send an embed: it lists the track at queue position 0
  under the number \<open>-19\<close>. On page 2 of a queue of one track the slice is empty, the local
  \<open>queuetime\<close> is unbound, and the command raises without sending.
\<close>

theorem queue_page_counterexample:
  "queue sv_no_hit (default_api (\<lambda>n. 0)) ctx_3 (- 1) world_3 =
     (None, send_embed
        \<lparr> embed_title = None,
          embed_description =
            Some (''**11 tracks**'' @ [CHR 0x0A] @ ''total queue time = t'' @ [CHR 0x0A, CHR 0x0A]
                  @ ''`-19.` [**Song A (Lyrics)**](https://example.org/a)'' @ [CHR 0x0A]),
          embed_fields = [],
          embed_footer = Some ''Viewing page -1/2'' \<rparr> world_3)
   \<and> player_queue (default_api (\<lambda>n. 0)) player_3 ! 0 = track_a
   \<and> queue sv_no_hit (default_api (\<lambda>n. 0)) ctx_1 2 world_1 = (Some UnboundLocalError, world_1)"
  by (simp add: queue_def world_3_def ctx_3_def player_3_def default_api_def sv_no_hit_def
      py_slice_def slice_bound_def ceil_div_def str_int_def digits_eval queue_line_def
      track_a_def track_b_def world_1_def ctx_1_def player_1_def)

text \<open>
  C4. For every lookup of the play command that found something: when the audio node
  reports the load type \<open>PLAYLIST_LOADED\<close>, \<open>add\<close> is called once for every track of
  the result, in result order, and the embed is titled \<open>Playlist Enqueued!\<close>; for any
  other load type \<open>add\<close> is called once, for the first track, and the embed is titled
  \<open>Track Enqueued\<close>. \<open>play\<close> is then called on the player only when the player does
  not report that it is playing. On the default player the queue grows by exactly those
  tracks at its end, and a player that is connected and has a current track keeps it.
\<close>

theorem play_enqueues:
  assumes "players w (guild_id ctx) = Some player"
      and "players wd (guild_id ctx) = Some pd"
      and "q = resolve_query sv query"
      and "get_tracks sv q = Some results"
      and "tracks results = track # rest"
      and "p' = (if loadType results = ''PLAYLIST_LOADED''
                 then foldl (\<lambda>p t. player_add api (author_id ctx) (Dict t) p) player (tracks results)
                 else player_add api (author_id ctx) (Track (AudioTrack track (author_id ctx) True)) player)"
      and "pd' = pd\<lparr>dp_queue := dp_queue pd @
                 (if loadType results = ''PLAYLIST_LOADED''
                  then map (\<lambda>t. AudioTrack t (author_id ctx) False) (tracks results)
                  else [AudioTrack track (author_id ctx) True])\<rparr>"
      and "e = \<lparr> embed_title = Some (if loadType results = ''PLAYLIST_LOADED''
                                     then ''Playlist Enqueued!'' else ''Track Enqueued''),
                 embed_description =
                   Some (if loadType results = ''PLAYLIST_LOADED''
                         then playlistInfo_name results @ '' - ''
                              @ str_int (int (length (tracks results))) @ '' tracks''
                         else ''['' @ info_title track @ '']('' @ info_uri track @ '')''),
                 embed_fields = [], embed_footer = None \<rparr>"
  shows "play sv api ctx query w =
            (None, w\<lparr>players := (players w)(guild_id ctx \<mapsto>
                                  (if player_is_playing api p' then p' else player_play api p')),
                     spotify := Some False,
                     lyricstitle := Some (py_strip ''ytsearch:'' q),
                     outbox := outbox w @ [Get_Tracks q, Send_Embed e]\<rparr>)
       \<and> players (snd (play sv (default_api r) ctx query wd)) (guild_id ctx) =
            Some (if dp_channel_id pd \<noteq> None \<and> dp_current pd \<noteq> None then pd' else dp_play r pd')"
proof -
  have en: "enqueue api ctx results track player = (p', e)"
    unfolding assms(6,8) by (simp add: enqueue_def)
  have gen: "play sv api ctx query w =
            (None, w\<lparr>players := (players w)(guild_id ctx \<mapsto>
                                  (if player_is_playing api p' then p' else player_play api p')),
                     spotify := Some False,
                     lyricstitle := Some (py_strip ''ytsearch:'' q),
                     outbox := outbox w @ [Get_Tracks q, Send_Embed e]\<rparr>)"
    using assms(1,4,5) assms(3) [symmetric] en
    by (simp add: play_def play_if_idle_def send_embed_def set_player_def Let_def)
  have ed: "fst (enqueue (default_api r) ctx results track pd) = pd'"
    unfolding assms(7) by (simp add: enqueue_def default_add_all) (simp add: default_api_def)
  have pl: "player_is_playing (default_api r) pd' = (dp_channel_id pd \<noteq> None \<and> dp_current pd \<noteq> None)"
    unfolding assms(7) by (simp add: default_api_def)
  have pp: "player_play (default_api r) = dp_play r" by (simp add: default_api_def)
  have dflt: "players (snd (play sv (default_api r) ctx query wd)) (guild_id ctx) =
            Some (if dp_channel_id pd \<noteq> None \<and> dp_current pd \<noteq> None then pd' else dp_play r pd')"
    using assms(2,4,5) assms(3) [symmetric] ed pl pp
    by (simp add: play_def play_if_idle_def send_embed_def set_player_def Let_def split_beta)
  from gen dflt show ?thesis by blast
qed

theorem play_enqueues_witness:
  "players world_1 (guild_id ctx_1) = Some player_1
   \<and> get_tracks sv_hit (resolve_query sv_hit ''song b'') = Some results_b
   \<and> tracks results_b = [dict_b]
   \<and> play sv_hit (default_api (\<lambda>n. 0)) ctx_1 ''song b'' world_1 =
       (None, world_1\<lparr>players := [1 \<mapsto> player_1\<lparr>dp_queue := [track_b, AudioTrack dict_b 7 True]\<rparr>],
                      spotify := Some False,
                      lyricstitle := Some ''ong b'',
                      outbox := [Get_Tracks ''ytsearch:song b'',
                                 Send_Embed \<lparr> embed_title = Some ''Track Enqueued'',
                                              embed_description = Some ''[Song B](https://example.org/b)'',
                                              embed_fields = [], embed_footer = None \<rparr>]\<rparr>)"
proof -
  let ?api = "default_api (\<lambda>n. 0)"
  have a1: "players world_1 (guild_id ctx_1) = Some player_1"
    by (simp add: world_1_def ctx_1_def)
  have a3: "''ytsearch:song b'' = resolve_query sv_hit ''song b''"
    by (simp add: resolve_song_b)
  have a4: "get_tracks sv_hit ''ytsearch:song b'' = Some results_b"
    by (simp add: sv_hit_def)
  have a5: "tracks results_b = dict_b # []"
    by (simp add: results_b_def)
  note T = play_enqueues [OF a1 a1 a3 a4 a5 refl refl refl, of ?api "\<lambda>n. 0", THEN conjunct1]
  have "play sv_hit ?api ctx_1 ''song b'' world_1 =
       (None, world_1\<lparr>players := [1 \<mapsto> player_1\<lparr>dp_queue := [track_b, AudioTrack dict_b 7 True]\<rparr>],
                      spotify := Some False,
                      lyricstitle := Some ''ong b'',
                      outbox := [Get_Tracks ''ytsearch:song b'',
                                 Send_Embed \<lparr> embed_title = Some ''Track Enqueued'',
                                              embed_description = Some ''[Song B](https://example.org/b)'',
                                              embed_fields = [], embed_footer = None \<rparr>]\<rparr>)"
    unfolding T
    by (simp add: results_b_def strip_song_b default_api_def ctx_1_def player_1_def world_1_def dict_b_def)
  then show ?thesis using a1 a4 a5 by (simp add: resolve_song_b)
qed






text \<open>
  C6. \<open>playuser\<close> mirrors a member's Spotify status. The query it forwards to the audio
  node for a Spotify activity is the activity's title, a space and the activity's artist,
  with \<open>ytsearch:\<close> in front unless that text matches the URL pattern. With a player
  for the guild, the queries \<open>playuser\<close> forwards are, in order, those of the member's
  Spotify activities, up to the activity at which the handler stops, and the first one is
  always forwarded. \<open>lyricsuser\<close> likewise searches the lyrics service with the titles
  of the member's Spotify activities, the first one always.
\<close>

theorem spotify_status_queries:
  assumes "players w (guild_id ctx) = Some player"
  shows "playuser_query a_title a_artist =
           (if url_rx_match (a_title @ '' '' @ a_artist) then a_title @ '' '' @ a_artist
            else ''ytsearch:'' @ a_title @ '' '' @ a_artist)
       \<and> (\<exists>n. lookups (outbox (snd (playuser sv api ctx acts w)))
                 = lookups (outbox w) @ take n (map (\<lambda>(t, a). playuser_query t a) (spotify_activities acts))
               \<and> (spotify_activities acts \<noteq> [] \<longrightarrow> 0 < n))
       \<and> (\<exists>n. searches (outbox (snd (lyricsuser sv ctx acts w)))
                 = searches (outbox w) @ take n (map fst (spotify_activities acts))
               \<and> (spotify_activities acts \<noteq> [] \<longrightarrow> 0 < n))"
proof (intro conjI)
  show "playuser_query a_title a_artist =
           (if url_rx_match (a_title @ '' '' @ a_artist) then a_title @ '' '' @ a_artist
            else ''ytsearch:'' @ a_title @ '' '' @ a_artist)"
    by (simp add: playuser_query_def search_prefix_def)
  have "players (w\<lparr>spotify := Some True\<rparr>) (guild_id ctx) \<noteq> None"
    using assms by simp
  from playuser_loop_lookups [OF this, of sv api acts]
  show "\<exists>n. lookups (outbox (snd (playuser sv api ctx acts w)))
                 = lookups (outbox w) @ take n (map (\<lambda>(t, a). playuser_query t a) (spotify_activities acts))
               \<and> (spotify_activities acts \<noteq> [] \<longrightarrow> 0 < n)"
    by (simp add: playuser_def)
  show "\<exists>n. searches (outbox (snd (lyricsuser sv ctx acts w)))
                 = searches (outbox w) @ take n (map fst (spotify_activities acts))
               \<and> (spotify_activities acts \<noteq> [] \<longrightarrow> 0 < n)"
  proof (cases "acts = []")
    case True
    then show ?thesis by (simp add: lyricsuser_def)
  next
    case False
    then show ?thesis
      using lyricsuser_loop_searches [of sv acts w] by (simp add: lyricsuser_def)
  qed
qed

theorem spotify_status_queries_witness:
  "players world_1 (guild_id ctx_1) = Some player_1
   \<and> playuser_query ''Song'' ''Artist'' = ''ytsearch:Song Artist''
   \<and> playuser_query ''https://example.org/b'' ''Artist'' = ''https://example.org/b Artist''
   \<and> lookups (outbox (snd (playuser sv_no_hit (default_api (\<lambda>n. 0)) ctx_1
                              [Other_Activity ''Game'', Spotify ''Song'' ''Artist''] world_1)))
        = [''ytsearch:Song Artist'']
   \<and> searches (outbox (snd (lyricsuser sv_no_hit ctx_1
                              [Other_Activity ''Game'', Spotify ''Song'' ''Artist''] world_1)))
        = [''Song'']"
proof -
  have a1: "players world_1 (guild_id ctx_1) = Some player_1"
    by (simp add: world_1_def ctx_1_def)
  note T = spotify_status_queries [OF a1, of "''Song''" "''Artist''" sv_no_hit
      "default_api (\<lambda>n. 0)" "[Other_Activity ''Game'', Spotify ''Song'' ''Artist'']"]
  have q1: "playuser_query ''Song'' ''Artist'' = ''ytsearch:Song Artist''"
    using T by (simp add: url_rx_match_def)
  have q2: "playuser_query ''https://example.org/b'' ''Artist'' = ''https://example.org/b Artist''"
    by (simp add: playuser_query_def search_prefix_def url_rx_match_def optional_www_def dot_plus_def)
  from T obtain n where
    n: "lookups (outbox (snd (playuser sv_no_hit (default_api (\<lambda>n. 0)) ctx_1
                              [Other_Activity ''Game'', Spotify ''Song'' ''Artist''] world_1)))
          = lookups (outbox world_1) @ take n [playuser_query ''Song'' ''Artist'']" "0 < n"
    by auto
  from T obtain m where
    m: "searches (outbox (snd (lyricsuser sv_no_hit ctx_1
                              [Other_Activity ''Game'', Spotify ''Song'' ''Artist''] world_1)))
          = searches (outbox world_1) @ take m [''Song'']" "0 < m"
    by auto
  have tn: "take n [''ytsearch:Song Artist''] = [''ytsearch:Song Artist'']"
    using n(2) by (cases n) simp_all
  have tm: "take m [''Song''] = [''Song'']"
    using m(2) by (cases m) simp_all
  have l: "lookups (outbox (snd (playuser sv_no_hit (default_api (\<lambda>n. 0)) ctx_1
                              [Other_Activity ''Game'', Spotify ''Song'' ''Artist''] world_1)))
        = [''ytsearch:Song Artist'']"
    using n(1) [unfolded q1 tn] by (simp add: world_1_def)
  have s: "searches (outbox (snd (lyricsuser sv_no_hit ctx_1
                              [Other_Activity ''Game'', Spotify ''Song'' ''Artist''] world_1)))
        = [''Song'']"
    using m(1) [unfolded tm] by (simp add: world_1_def)
  from a1 q1 q2 l s show ?thesis by blast
qed


end
